theory Spec2Isabelle
  imports Complex_Main
begin

section \<open>The OpenAI plugin for Genkit: translation between the generic and the vendor model\<close>

text \<open>
  The embedding follows \<^verbatim>\<open>plugins/openai\<close>: the registry (\<^verbatim>\<open>Init\<close>,
  \<^verbatim>\<open>DefineModel\<close>, \<^verbatim>\<open>generate\<close>), the request translator
  (\<^verbatim>\<open>convertRequest\<close>, \<^verbatim>\<open>convertMessages\<close>, \<^verbatim>\<open>convertTools\<close>) and
  the response translator (\<^verbatim>\<open>translateResponse\<close>, \<^verbatim>\<open>translateCandidate\<close>).

  What lies outside the package is a parameter of the definitions that use it:
  \<^item> \<open>marshal\<close> is \<^verbatim>\<open>json.Marshal\<close> on a \<^verbatim>\<open>map[string]any\<close> (\<open>None\<close> when it
    returns an error), \<open>unmarshal\<close> is \<^verbatim>\<open>json.Unmarshal\<close> into a
    \<^verbatim>\<open>map[string]any\<close>; the type \<open>'m\<close> stands for \<^verbatim>\<open>map[string]any\<close>;
  \<^item> \<open>narrow\<close> is Go's conversion \<^verbatim>\<open>float32(x)\<close> from \<^verbatim>\<open>float64\<close> (type \<open>'f\<close>) to
    \<^verbatim>\<open>float32\<close> (type \<open>'g\<close>); the translator uses only the zero of both types,
    and \<open>float32_of_float64\<close> below is the conversion itself;
  \<^item> \<open>create\<close> is the vendor transport \<^verbatim>\<open>client.CreateChatCompletion\<close>;
  \<^item> \<open>reg\<close> is the host registration \<^verbatim>\<open>ai.DefineModel\<close>, acting on the host's
    own state \<open>'h\<close>; \<open>ai_DefineModel\<close> below is genkit's.

  A Go \<^verbatim>\<open>error\<close> return and a Go panic are both values: a function that can fail
  returns \<open>failure + 'a\<close>, with \<open>Err\<close> for a returned error and \<open>Panic\<close> for
  a panic (also the runtime's own: index out of range, nil dereference).

  Pointers: a pointer field that the code tests against nil, or that is nil by design
  for some kinds of value (\<^verbatim>\<open>Output\<close>, \<^verbatim>\<open>Part.ToolRequest\<close>,
  \<^verbatim>\<open>Part.ToolResponse\<close>, the configuration), is an \<open>option\<close>. The request
  itself and the elements of \<^verbatim>\<open>[]*ai.Message\<close>, \<^verbatim>\<open>[]*ai.Part\<close> and
  \<^verbatim>\<open>[]*ai.ToolDefinition\<close> are taken to be non-nil, as the constructors of
  package \<^verbatim>\<open>ai\<close> build them. A nil slice and an empty slice are both \<open>[]\<close>.
\<close>

subsection \<open>Failures\<close>

datatype error =
    UnknownPartType              \<comment> \<open>\<^verbatim>\<open>"unknown part type in a request"\<close>\<close>
  | UnknownOpenAIRole string     \<comment> \<open>\<^verbatim>\<open>"Unknown OpenAI Role %s"\<close>\<close>
  | MarshalError                 \<comment> \<open>\<^verbatim>\<open>"failed to marshal map to JSON string: ..."\<close>\<close>
  | DefineModelUnknown string    \<comment> \<open>\<^verbatim>\<open>"openai.DefineModel: called with unknown model %q and nil ModelCapabilities"\<close>\<close>
  | InitNoAPIKey                 \<comment> \<open>\<^verbatim>\<open>"openai.Init: OpenAI requires setting OPENAI_API_KEY ..."\<close>\<close>
  | VendorError string           \<comment> \<open>the error of \<^verbatim>\<open>CreateChatCompletion\<close>, passed through\<close>

datatype panic =
    UnknownAIRole string         \<comment> \<open>\<^verbatim>\<open>"Unknown ai.Role: %s"\<close>\<close>
  | UnknownRole string           \<comment> \<open>\<^verbatim>\<open>"unknown role: %s"\<close>\<close>
  | UnmarshalFailed string       \<comment> \<open>\<^verbatim>\<open>"unmarshal failed to parse json string %s: ..."\<close>\<close>
  | MarshalFailed                \<comment> \<open>\<^verbatim>\<open>"failed to marshal map to JSON string: ..."\<close>\<close>
  | InitNotCalled                \<comment> \<open>\<^verbatim>\<open>provider + ".Init not called"\<close>\<close>
  | IndexOutOfRange              \<comment> \<open>runtime: index out of range [0] with length 0\<close>
  | NilDereference               \<comment> \<open>runtime: nil pointer dereference\<close>
  | HostPanic string             \<comment> \<open>the host registration's panic, with the name it refuses\<close>

datatype failure = Err error | Panic panic

subsection \<open>The generic model (package \<^verbatim>\<open>ai\<close>)\<close>

text \<open>
  \<^verbatim>\<open>ai.Role\<close>, \<^verbatim>\<open>ai.OutputFormat\<close> and the vendor's roles, finish reasons and
  type tags are Go string types: a value outside the declared constants is well-typed,
  so they are strings here. The constants carry the values the two libraries declare.
\<close>

definition ai_RoleSystem :: string where "ai_RoleSystem = ''system''"
definition ai_RoleUser :: string where "ai_RoleUser = ''user''"
definition ai_RoleModel :: string where "ai_RoleModel = ''model''"
definition ai_RoleTool :: string where "ai_RoleTool = ''tool''"

definition ai_OutputFormatJSON :: string where "ai_OutputFormatJSON = ''json''"
definition ai_OutputFormatText :: string where "ai_OutputFormatText = ''text''"

datatype PartKind = PartText | PartMedia | PartData | PartToolRequest | PartToolResponse

record 'm ToolRequest =
  Name :: string
  Input :: 'm

record 'm ToolResponse =
  Name :: string
  Output :: 'm

text \<open>
  \<^verbatim>\<open>ai.Part\<close> is a struct with a kind tag; the two tool fields are pointers, \<open>None\<close>
  when nil.
\<close>

record 'm Part =
  Kind :: PartKind
  ContentType :: string
  Text :: string
  ToolRequest :: "'m ToolRequest option"
  ToolResponse :: "'m ToolResponse option"

definition IsText :: "'m Part \<Rightarrow> bool" where
  "IsText p = (Kind p = PartText)"

definition IsMedia :: "'m Part \<Rightarrow> bool" where
  "IsMedia p = (Kind p = PartMedia)"

definition IsToolRequest :: "'m Part \<Rightarrow> bool" where
  "IsToolRequest p = (Kind p = PartToolRequest)"

definition NewTextPart :: "string \<Rightarrow> 'm Part" where
  "NewTextPart text =
     \<lparr>Kind = PartText, ContentType = ''plain/text'', Text = text, ToolRequest = None,
      ToolResponse = None\<rparr>"

definition NewDataPart :: "string \<Rightarrow> 'm Part" where
  "NewDataPart contents =
     \<lparr>Kind = PartData, ContentType = '''', Text = contents, ToolRequest = None, ToolResponse = None\<rparr>"

definition NewToolRequestPart :: "'m ToolRequest \<Rightarrow> 'm Part" where
  "NewToolRequestPart r =
     \<lparr>Kind = PartToolRequest, ContentType = '''', Text = '''', ToolRequest = Some r,
      ToolResponse = None\<rparr>"

record 'm Message =
  Role :: string
  Content :: "'m Part list"

record 'm ToolDefinition =
  Name :: string
  Description :: string
  InputSchema :: 'm

record 'f GenerationCommonConfig =
  MaxOutputTokens :: int
  StopSequences :: "string list"
  Temperature :: 'f
  TopK :: int
  TopP :: 'f

text \<open>
  \<^verbatim>\<open>GenerateRequest.Config\<close> has type \<^verbatim>\<open>any\<close>: it is nil, a
  \<^verbatim>\<open>*ai.GenerationCommonConfig\<close> (itself possibly a nil pointer), or a value of
  another type.
\<close>

datatype 'f ConfigValue =
    ConfigNil
  | ConfigCommon "'f GenerationCommonConfig option"
  | ConfigOther

record 'm GenerateRequestOutput =
  Format :: string
  Schema :: 'm

record ('m, 'f) GenerateRequest =
  Candidates :: int
  Config :: "'f ConfigValue"
  Messages :: "'m Message list"
  Output :: "'m GenerateRequestOutput option"
  Tools :: "'m ToolDefinition list"

datatype FinishReason =
    FinishReasonStop
  | FinishReasonLength
  | FinishReasonBlocked
  | FinishReasonOther
  | FinishReasonUnknown

record 'm Candidate =
  Index :: int
  FinishReason :: FinishReason
  Message :: "'m Message"

record GenerationUsage =
  InputTokens :: int
  OutputTokens :: int
  TotalTokens :: int

record ModelCapabilities =
  Multiturn :: bool
  Tools :: bool
  SystemRole :: bool
  Media :: bool

record ModelMetadata =
  Label :: string
  Supports :: ModelCapabilities

subsection \<open>The vendor model (package \<^verbatim>\<open>goopenai\<close>)\<close>

definition goopenai_ChatMessageRoleSystem :: string where
  "goopenai_ChatMessageRoleSystem = ''system''"
definition goopenai_ChatMessageRoleUser :: string where
  "goopenai_ChatMessageRoleUser = ''user''"
definition goopenai_ChatMessageRoleAssistant :: string where
  "goopenai_ChatMessageRoleAssistant = ''assistant''"
definition goopenai_ChatMessageRoleFunction :: string where
  "goopenai_ChatMessageRoleFunction = ''function''"
definition goopenai_ChatMessageRoleTool :: string where
  "goopenai_ChatMessageRoleTool = ''tool''"

definition goopenai_FinishReasonStop :: string where
  "goopenai_FinishReasonStop = ''stop''"
definition goopenai_FinishReasonLength :: string where
  "goopenai_FinishReasonLength = ''length''"
definition goopenai_FinishReasonFunctionCall :: string where
  "goopenai_FinishReasonFunctionCall = ''function_call''"
definition goopenai_FinishReasonToolCalls :: string where
  "goopenai_FinishReasonToolCalls = ''tool_calls''"
definition goopenai_FinishReasonContentFilter :: string where
  "goopenai_FinishReasonContentFilter = ''content_filter''"
definition goopenai_FinishReasonNull :: string where
  "goopenai_FinishReasonNull = ''null''"

definition goopenai_ChatMessagePartTypeText :: string where
  "goopenai_ChatMessagePartTypeText = ''text''"
definition goopenai_ChatMessagePartTypeImageURL :: string where
  "goopenai_ChatMessagePartTypeImageURL = ''image_url''"
definition goopenai_ImageURLDetailAuto :: string where
  "goopenai_ImageURLDetailAuto = ''auto''"
definition goopenai_ToolTypeFunction :: string where
  "goopenai_ToolTypeFunction = ''function''"

definition goopenai_ChatCompletionResponseFormatTypeJSONObject :: string where
  "goopenai_ChatCompletionResponseFormatTypeJSONObject = ''json_object''"
definition goopenai_ChatCompletionResponseFormatTypeText :: string where
  "goopenai_ChatCompletionResponseFormatTypeText = ''text''"

definition goopenai_GPT4o :: string where "goopenai_GPT4o = ''gpt-4o''"
definition goopenai_GPT4oMini :: string where "goopenai_GPT4oMini = ''gpt-4o-mini''"
definition goopenai_GPT4Turbo :: string where "goopenai_GPT4Turbo = ''gpt-4-turbo''"
definition goopenai_GPT4 :: string where "goopenai_GPT4 = ''gpt-4''"

record ChatMessageImageURL =
  URL :: string
  Detail :: string

record ChatMessagePart =
  Type :: string
  Text :: string
  ImageURL :: "ChatMessageImageURL option"

record FunctionCall =
  Name :: string
  Arguments :: string

record ToolCall =
  ID :: string
  Type :: string
  Function :: FunctionCall

record ChatCompletionMessage =
  Role :: string
  Content :: string
  MultiContent :: "ChatMessagePart list"
  Name :: string
  ToolCalls :: "ToolCall list"
  ToolCallID :: string

text \<open>The zero value of the struct: what a composite literal leaves unset.\<close>

definition ChatCompletionMessage_zero :: ChatCompletionMessage where
  "ChatCompletionMessage_zero =
     \<lparr>Role = '''', Content = '''', MultiContent = [], Name = '''', ToolCalls = [],
      ToolCallID = ''''\<rparr>"

record FunctionDefinition =
  Name :: string
  Description :: string
  Parameters :: string

record Tool =
  Type :: string
  Function :: FunctionDefinition

record 'm MapJSONMarshaller =
  Data :: 'm

record 'm ChatCompletionResponseFormatJSONSchema =
  Schema :: "'m MapJSONMarshaller"
  Strict :: bool

record 'm ChatCompletionResponseFormat =
  Type :: string
  JSONSchema :: "'m ChatCompletionResponseFormatJSONSchema option"

record ('m, 'g) ChatCompletionRequest =
  Model :: string
  Messages :: "ChatCompletionMessage list"
  MaxTokens :: int
  Temperature :: 'g
  TopP :: 'g
  N :: int
  Stop :: "string list"
  ResponseFormat :: "'m ChatCompletionResponseFormat option"
  Tools :: "Tool list"

record ChatCompletionChoice =
  Index :: int
  Message :: ChatCompletionMessage
  FinishReason :: string

record Usage =
  PromptTokens :: int
  CompletionTokens :: int
  TotalTokens :: int

record ChatCompletionResponse =
  Choices :: "ChatCompletionChoice list"
  Usage :: Usage

record ('m, 'f) GenerateResponse =
  Candidates :: "'m Candidate list"
  Usage :: "GenerationUsage option"
  Custom :: "ChatCompletionResponse option"
  Request :: "('m, 'f) GenerateRequest option"

subsection \<open>Role mapping\<close>

definition fromAIRoleToOpenAIRole :: "string \<Rightarrow> failure + string" where
  "fromAIRoleToOpenAIRole aiRole =
     (if aiRole = ai_RoleUser then Inr goopenai_ChatMessageRoleUser
      else if aiRole = ai_RoleSystem then Inr goopenai_ChatMessageRoleSystem
      else if aiRole = ai_RoleModel then Inr goopenai_ChatMessageRoleAssistant
      else if aiRole = ai_RoleTool then Inr goopenai_ChatMessageRoleTool
      else Inl (Panic (UnknownAIRole aiRole)))"

text \<open>
  \<^verbatim>\<open>toOpenAIRole\<close> is, despite its name, the direction vendor role to generic role.
\<close>

definition toOpenAIRole :: "string \<Rightarrow> failure + string" where
  "toOpenAIRole role =
     (if role = goopenai_ChatMessageRoleUser then Inr ai_RoleUser
      else if role = goopenai_ChatMessageRoleAssistant then Inr ai_RoleModel
      else if role = goopenai_ChatMessageRoleSystem then Inr ai_RoleSystem
      else if role = goopenai_ChatMessageRoleTool \<or> role = goopenai_ChatMessageRoleFunction
        then Inr ai_RoleTool
      else Inl (Panic (UnknownRole role)))"

subsection \<open>JSON helpers\<close>

definition jsonStringToMap :: "(string \<Rightarrow> 'm option) \<Rightarrow> string \<Rightarrow> failure + 'm" where
  "jsonStringToMap unmarshal jsonString =
     (case unmarshal jsonString of
        None \<Rightarrow> Inl (Panic (UnmarshalFailed jsonString))
      | Some result \<Rightarrow> Inr result)"

definition mapToJSONString :: "('m \<Rightarrow> string option) \<Rightarrow> 'm \<Rightarrow> failure + string" where
  "mapToJSONString marshal data =
     (case marshal data of
        None \<Rightarrow> Inl (Panic MarshalFailed)
      | Some jsonBytes \<Rightarrow> Inr jsonBytes)"

definition mapToJSONRawMessage :: "('m \<Rightarrow> string option) \<Rightarrow> 'm \<Rightarrow> failure + string" where
  "mapToJSONRawMessage marshal data =
     (case marshal data of
        None \<Rightarrow> Inl (Err MarshalError)
      | Some jsonBytes \<Rightarrow> Inr jsonBytes)"

definition MarshalJSON :: "('m \<Rightarrow> string option) \<Rightarrow> 'm MapJSONMarshaller \<Rightarrow> string option" where
  "MarshalJSON marshal m = marshal (Data m)"


subsection \<open>The request translator\<close>

definition toOpenAiTextAndMedia :: "'m Part \<Rightarrow> failure + ChatMessagePart" where
  "toOpenAiTextAndMedia part =
     (if IsText part then
        Inr \<lparr>ChatMessagePart.Type = goopenai_ChatMessagePartTypeText,
             ChatMessagePart.Text = Part.Text part,
             ChatMessagePart.ImageURL = None\<rparr>
      else if IsMedia part then
        Inr \<lparr>ChatMessagePart.Type = goopenai_ChatMessagePartTypeImageURL,
             ChatMessagePart.Text = '''',
             ChatMessagePart.ImageURL =
               Some \<lparr>URL = Part.Text part, Detail = goopenai_ImageURLDetailAuto\<rparr>\<rparr>
      else Inl (Err UnknownPartType))"

text \<open>The loop over the parts of a user message, with \<^verbatim>\<open>multiContent\<close> as accumulator.\<close>

fun convertMessages_multiContent ::
  "ChatMessagePart list \<Rightarrow> 'm Part list \<Rightarrow> failure + ChatMessagePart list" where
  "convertMessages_multiContent multiContent [] = Inr multiContent"
| "convertMessages_multiContent multiContent (part # parts) =
     (case toOpenAiTextAndMedia part of
        Inl err \<Rightarrow> Inl err
      | Inr p \<Rightarrow> convertMessages_multiContent (multiContent @ [p]) parts)"

text \<open>
  The loop over the parts of an assistant message, with \<^verbatim>\<open>toolCalls\<close> as accumulator.
  \<^verbatim>\<open>part.ToolRequest.Name\<close> dereferences the pointer before anything is encoded.
\<close>

fun convertMessages_toolCalls ::
  "('m \<Rightarrow> string option) \<Rightarrow> ToolCall list \<Rightarrow> 'm Part list \<Rightarrow> failure + ToolCall list" where
  "convertMessages_toolCalls marshal toolCalls [] = Inr toolCalls"
| "convertMessages_toolCalls marshal toolCalls (part # parts) =
     (if \<not> IsToolRequest part then convertMessages_toolCalls marshal toolCalls parts
      else
        (case Part.ToolRequest part of
           None \<Rightarrow> Inl (Panic NilDereference)
         | Some tr \<Rightarrow>
             (case mapToJSONString marshal (ToolRequest.Input tr) of
                Inl err \<Rightarrow> Inl err
              | Inr arguments \<Rightarrow>
                  convertMessages_toolCalls marshal
                    (toolCalls @
                      [\<lparr>ToolCall.ID = ToolRequest.Name tr,
                        ToolCall.Type = goopenai_ToolTypeFunction,
                        ToolCall.Function =
                          \<lparr>FunctionCall.Name = ToolRequest.Name tr,
                           FunctionCall.Arguments = arguments\<rparr>\<rparr>])
                    parts)))"

text \<open>
  The loop over the parts of a tool message: it appends to \<^verbatim>\<open>msgs\<close> itself, one
  vendor message per part.
\<close>

fun convertMessages_toolResponses ::
  "('m \<Rightarrow> string option) \<Rightarrow> string \<Rightarrow> ChatCompletionMessage list \<Rightarrow> 'm Part list
     \<Rightarrow> failure + ChatCompletionMessage list" where
  "convertMessages_toolResponses marshal role msgs [] = Inr msgs"
| "convertMessages_toolResponses marshal role msgs (part # parts) =
     (case Part.ToolResponse part of
        None \<Rightarrow> Inl (Panic NilDereference)
      | Some tr \<Rightarrow>
          (case mapToJSONString marshal (ToolResponse.Output tr) of
             Inl err \<Rightarrow> Inl err
           | Inr content \<Rightarrow>
               convertMessages_toolResponses marshal role
                 (msgs @
                   [ChatCompletionMessage_zero
                      \<lparr>ChatCompletionMessage.Role := role,
                       ChatCompletionMessage.ToolCallID := ToolResponse.Name tr,
                       ChatCompletionMessage.Content := content,
                       ChatCompletionMessage.Name := ToolResponse.Name tr\<rparr>])
                 parts))"

text \<open>
  The loop over the messages, with \<^verbatim>\<open>msgs\<close> as accumulator.
  \<^verbatim>\<open>m.Content[0]\<close> on an empty slice is the runtime panic \<open>IndexOutOfRange\<close>.
\<close>

fun convertMessages_loop ::
  "('m \<Rightarrow> string option) \<Rightarrow> ChatCompletionMessage list \<Rightarrow> 'm Message list
     \<Rightarrow> failure + ChatCompletionMessage list" where
  "convertMessages_loop marshal msgs [] = Inr msgs"
| "convertMessages_loop marshal msgs (m # ms) =
     (case fromAIRoleToOpenAIRole (Message.Role m) of
        Inl err \<Rightarrow> Inl err
      | Inr role \<Rightarrow>
          if role = goopenai_ChatMessageRoleUser then
            (case convertMessages_multiContent [] (Message.Content m) of
               Inl err \<Rightarrow> Inl err
             | Inr multiContent \<Rightarrow>
                 convertMessages_loop marshal
                   (msgs @
                     [ChatCompletionMessage_zero
                        \<lparr>ChatCompletionMessage.Role := role,
                         ChatCompletionMessage.MultiContent := multiContent\<rparr>])
                   ms)
          else if role = goopenai_ChatMessageRoleSystem then
            (case Message.Content m of
               [] \<Rightarrow> Inl (Panic IndexOutOfRange)
             | p # _ \<Rightarrow>
                 convertMessages_loop marshal
                   (msgs @
                     [ChatCompletionMessage_zero
                        \<lparr>ChatCompletionMessage.Role := role,
                         ChatCompletionMessage.Content := Part.Text p\<rparr>])
                   ms)
          else if role = goopenai_ChatMessageRoleAssistant then
            (case convertMessages_toolCalls marshal [] (Message.Content m) of
               Inl err \<Rightarrow> Inl err
             | Inr toolCalls \<Rightarrow>
                 if length toolCalls > 0 then
                   convertMessages_loop marshal
                     (msgs @
                       [ChatCompletionMessage_zero
                          \<lparr>ChatCompletionMessage.Role := role,
                           ChatCompletionMessage.ToolCalls := toolCalls\<rparr>])
                     ms
                 else
                   (case Message.Content m of
                      [] \<Rightarrow> Inl (Panic IndexOutOfRange)
                    | p # _ \<Rightarrow>
                        convertMessages_loop marshal
                          (msgs @
                            [ChatCompletionMessage_zero
                               \<lparr>ChatCompletionMessage.Role := role,
                                ChatCompletionMessage.Content := Part.Text p\<rparr>])
                          ms))
          else if role = goopenai_ChatMessageRoleTool then
            (case convertMessages_toolResponses marshal role msgs (Message.Content m) of
               Inl err \<Rightarrow> Inl err
             | Inr msgs' \<Rightarrow> convertMessages_loop marshal msgs' ms)
          else Inl (Err (UnknownOpenAIRole role)))"

definition convertMessages ::
  "('m \<Rightarrow> string option) \<Rightarrow> 'm Message list \<Rightarrow> failure + ChatCompletionMessage list" where
  "convertMessages marshal messages = convertMessages_loop marshal [] messages"

fun convertTools_loop ::
  "('m \<Rightarrow> string option) \<Rightarrow> Tool list \<Rightarrow> 'm ToolDefinition list \<Rightarrow> failure + Tool list" where
  "convertTools_loop marshal outTools [] = Inr outTools"
| "convertTools_loop marshal outTools (t # ts) =
     (case mapToJSONRawMessage marshal (InputSchema t) of
        Inl err \<Rightarrow> Inl err
      | Inr parameters \<Rightarrow>
          convertTools_loop marshal
            (outTools @
              [\<lparr>Tool.Type = goopenai_ToolTypeFunction,
                Tool.Function =
                  \<lparr>FunctionDefinition.Name = ToolDefinition.Name t,
                   FunctionDefinition.Description = ToolDefinition.Description t,
                   FunctionDefinition.Parameters = parameters\<rparr>\<rparr>])
            ts)"

definition convertTools ::
  "('m \<Rightarrow> string option) \<Rightarrow> 'm ToolDefinition list \<Rightarrow> failure + Tool list" where
  "convertTools marshal inTools = convertTools_loop marshal [] inTools"

definition modelsSupportingResponseFormats :: "string list" where
  "modelsSupportingResponseFormats = [goopenai_GPT4o, goopenai_GPT4oMini, goopenai_GPT4Turbo]"

text \<open>
  The four \<^verbatim>\<open>if\<close> statements on the common configuration, in the source's order,
  applied to the request built so far. The type assertion succeeds on a
  \<^verbatim>\<open>*ai.GenerationCommonConfig\<close> only, and a nil pointer is skipped.
\<close>

definition convertRequest_config ::
  "('f::zero \<Rightarrow> 'g) \<Rightarrow> 'f ConfigValue \<Rightarrow> ('m, 'g) ChatCompletionRequest
     \<Rightarrow> ('m, 'g) ChatCompletionRequest" where
  "convertRequest_config narrow config chatCompletionRequest =
     (case config of
        ConfigCommon (Some c) \<Rightarrow>
          (let r1 = (if MaxOutputTokens c \<noteq> 0
                     then chatCompletionRequest\<lparr>MaxTokens := MaxOutputTokens c\<rparr>
                     else chatCompletionRequest);
               r2 = (if length (StopSequences c) > 0
                     then r1\<lparr>Stop := StopSequences c\<rparr> else r1);
               r3 = (if GenerationCommonConfig.Temperature c \<noteq> 0
                     then r2\<lparr>ChatCompletionRequest.Temperature :=
                                narrow (GenerationCommonConfig.Temperature c)\<rparr>
                     else r2);
               r4 = (if GenerationCommonConfig.TopP c \<noteq> 0
                     then r3\<lparr>ChatCompletionRequest.TopP :=
                                narrow (GenerationCommonConfig.TopP c)\<rparr>
                     else r3)
           in r4)
      | _ \<Rightarrow> chatCompletionRequest)"

text \<open>
  The block on the output format. It is entered only for a non-nil \<^verbatim>\<open>Output\<close> with
  a non-empty \<^verbatim>\<open>Format\<close> and a model of the allow-list; the \<^verbatim>\<open>switch\<close> inside
  it has the only error return.
\<close>

definition convertRequest_format ::
  "string \<Rightarrow> 'm GenerateRequestOutput option \<Rightarrow> ('m, 'g) ChatCompletionRequest
     \<Rightarrow> failure + ('m, 'g) ChatCompletionRequest" where
  "convertRequest_format model output chatCompletionRequest =
     (case output of
        None \<Rightarrow> Inr chatCompletionRequest
      | Some out \<Rightarrow>
          if Format out \<noteq> '''' \<and> model \<in> set modelsSupportingResponseFormats then
            (if Format out = ai_OutputFormatJSON then
               Inr (chatCompletionRequest
                 \<lparr>ResponseFormat :=
                    Some \<lparr>ChatCompletionResponseFormat.Type =
                            goopenai_ChatCompletionResponseFormatTypeJSONObject,
                          JSONSchema =
                            Some \<lparr>Schema = \<lparr>Data = GenerateRequestOutput.Schema out\<rparr>,
                                  Strict = True\<rparr>\<rparr>\<rparr>)
             else if Format out = ai_OutputFormatText then
               Inr (chatCompletionRequest
                 \<lparr>ResponseFormat :=
                    Some \<lparr>ChatCompletionResponseFormat.Type =
                            goopenai_ChatCompletionResponseFormatTypeText,
                          JSONSchema = None\<rparr>\<rparr>)
             else Inl (Err UnknownPartType))
          else Inr chatCompletionRequest)"

text \<open>
  The other revision of the translator (the one kept in a file of its own, beside
  \<^verbatim>\<open>convertPart\<close>) has the same \<^verbatim>\<open>convertRequest\<close> with one difference: the
  JSON branch of the block on the output format sets the type only, and no schema.
\<close>

definition convertRequest_format_bare ::
  "string \<Rightarrow> 'm GenerateRequestOutput option \<Rightarrow> ('m, 'g) ChatCompletionRequest
     \<Rightarrow> failure + ('m, 'g) ChatCompletionRequest" where
  "convertRequest_format_bare model output chatCompletionRequest =
     (case output of
        None \<Rightarrow> Inr chatCompletionRequest
      | Some out \<Rightarrow>
          if Format out \<noteq> '''' \<and> model \<in> set modelsSupportingResponseFormats then
            (if Format out = ai_OutputFormatJSON then
               Inr (chatCompletionRequest
                 \<lparr>ResponseFormat :=
                    Some \<lparr>ChatCompletionResponseFormat.Type =
                            goopenai_ChatCompletionResponseFormatTypeJSONObject,
                          JSONSchema = None\<rparr>\<rparr>)
             else if Format out = ai_OutputFormatText then
               Inr (chatCompletionRequest
                 \<lparr>ResponseFormat :=
                    Some \<lparr>ChatCompletionResponseFormat.Type =
                            goopenai_ChatCompletionResponseFormatTypeText,
                          JSONSchema = None\<rparr>\<rparr>)
             else Inl (Err UnknownPartType))
          else Inr chatCompletionRequest)"

definition convertRequest ::
  "('m \<Rightarrow> string option) \<Rightarrow> ('f::zero \<Rightarrow> 'g::zero) \<Rightarrow> string \<Rightarrow> ('m, 'f) GenerateRequest
     \<Rightarrow> failure + ('m, 'g) ChatCompletionRequest" where
  "convertRequest marshal narrow model input =
     (case convertMessages marshal (GenerateRequest.Messages input) of
        Inl err \<Rightarrow> Inl err
      | Inr messages \<Rightarrow>
     (case convertTools marshal (GenerateRequest.Tools input) of
        Inl err \<Rightarrow> Inl err
      | Inr tools \<Rightarrow>
          convertRequest_format model (Output input)
            (convertRequest_config narrow (Config input)
               \<lparr>Model = model, Messages = messages, MaxTokens = 0,
                Temperature = 0, TopP = 0, N = GenerateRequest.Candidates input,
                Stop = [], ResponseFormat = None, Tools = tools\<rparr>)))"

subsection \<open>The request translator, other revision\<close>

text \<open>
  The package has a second revision of the request translator, in a file of its own.
  Its \<^verbatim>\<open>convertMessages\<close> calls \<^verbatim>\<open>convertPart\<close> where the revision above calls
  \<^verbatim>\<open>toOpenAiTextAndMedia\<close>, and the JSON branch of its \<^verbatim>\<open>convertRequest\<close> sets
  the type of the response format and no schema. \<^verbatim>\<open>fromAIRoleToOpenAIRole\<close>,
  \<^verbatim>\<open>convertTools\<close> and the JSON helpers are the same functions. The definitions of
  this revision carry the suffix \<open>rev\<close>.
\<close>

definition convertPart :: "'m Part \<Rightarrow> failure + ChatMessagePart" where
  "convertPart part =
     (if IsText part then
        Inr \<lparr>ChatMessagePart.Type = goopenai_ChatMessagePartTypeText,
             ChatMessagePart.Text = Part.Text part,
             ChatMessagePart.ImageURL = None\<rparr>
      else if IsMedia part then
        Inr \<lparr>ChatMessagePart.Type = goopenai_ChatMessagePartTypeImageURL,
             ChatMessagePart.Text = '''',
             ChatMessagePart.ImageURL =
               Some \<lparr>URL = Part.Text part, Detail = goopenai_ImageURLDetailAuto\<rparr>\<rparr>
      else Inl (Err UnknownPartType))"

fun convertMessages_multiContent_rev ::
  "ChatMessagePart list \<Rightarrow> 'm Part list \<Rightarrow> failure + ChatMessagePart list" where
  "convertMessages_multiContent_rev multiContent [] = Inr multiContent"
| "convertMessages_multiContent_rev multiContent (part # parts) =
     (case convertPart part of
        Inl err \<Rightarrow> Inl err
      | Inr p \<Rightarrow> convertMessages_multiContent_rev (multiContent @ [p]) parts)"

fun convertMessages_loop_rev ::
  "('m \<Rightarrow> string option) \<Rightarrow> ChatCompletionMessage list \<Rightarrow> 'm Message list
     \<Rightarrow> failure + ChatCompletionMessage list" where
  "convertMessages_loop_rev marshal msgs [] = Inr msgs"
| "convertMessages_loop_rev marshal msgs (m # ms) =
     (case fromAIRoleToOpenAIRole (Message.Role m) of
        Inl err \<Rightarrow> Inl err
      | Inr role \<Rightarrow>
          if role = goopenai_ChatMessageRoleUser then
            (case convertMessages_multiContent_rev [] (Message.Content m) of
               Inl err \<Rightarrow> Inl err
             | Inr multiContent \<Rightarrow>
                 convertMessages_loop_rev marshal
                   (msgs @
                     [ChatCompletionMessage_zero
                        \<lparr>ChatCompletionMessage.Role := role,
                         ChatCompletionMessage.MultiContent := multiContent\<rparr>])
                   ms)
          else if role = goopenai_ChatMessageRoleSystem then
            (case Message.Content m of
               [] \<Rightarrow> Inl (Panic IndexOutOfRange)
             | p # _ \<Rightarrow>
                 convertMessages_loop_rev marshal
                   (msgs @
                     [ChatCompletionMessage_zero
                        \<lparr>ChatCompletionMessage.Role := role,
                         ChatCompletionMessage.Content := Part.Text p\<rparr>])
                   ms)
          else if role = goopenai_ChatMessageRoleAssistant then
            (case convertMessages_toolCalls marshal [] (Message.Content m) of
               Inl err \<Rightarrow> Inl err
             | Inr toolCalls \<Rightarrow>
                 if length toolCalls > 0 then
                   convertMessages_loop_rev marshal
                     (msgs @
                       [ChatCompletionMessage_zero
                          \<lparr>ChatCompletionMessage.Role := role,
                           ChatCompletionMessage.ToolCalls := toolCalls\<rparr>])
                     ms
                 else
                   (case Message.Content m of
                      [] \<Rightarrow> Inl (Panic IndexOutOfRange)
                    | p # _ \<Rightarrow>
                        convertMessages_loop_rev marshal
                          (msgs @
                            [ChatCompletionMessage_zero
                               \<lparr>ChatCompletionMessage.Role := role,
                                ChatCompletionMessage.Content := Part.Text p\<rparr>])
                          ms))
          else if role = goopenai_ChatMessageRoleTool then
            (case convertMessages_toolResponses marshal role msgs (Message.Content m) of
               Inl err \<Rightarrow> Inl err
             | Inr msgs' \<Rightarrow> convertMessages_loop_rev marshal msgs' ms)
          else Inl (Err (UnknownOpenAIRole role)))"

definition convertMessages_rev ::
  "('m \<Rightarrow> string option) \<Rightarrow> 'm Message list \<Rightarrow> failure + ChatCompletionMessage list" where
  "convertMessages_rev marshal messages = convertMessages_loop_rev marshal [] messages"

definition convertRequest_rev ::
  "('m \<Rightarrow> string option) \<Rightarrow> ('f::zero \<Rightarrow> 'g::zero) \<Rightarrow> string \<Rightarrow> ('m, 'f) GenerateRequest
     \<Rightarrow> failure + ('m, 'g) ChatCompletionRequest" where
  "convertRequest_rev marshal narrow model input =
     (case convertMessages_rev marshal (GenerateRequest.Messages input) of
        Inl err \<Rightarrow> Inl err
      | Inr messages \<Rightarrow>
     (case convertTools marshal (GenerateRequest.Tools input) of
        Inl err \<Rightarrow> Inl err
      | Inr tools \<Rightarrow>
          convertRequest_format_bare model (Output input)
            (convertRequest_config narrow (Config input)
               \<lparr>Model = model, Messages = messages, MaxTokens = 0,
                Temperature = 0, TopP = 0, N = GenerateRequest.Candidates input,
                Stop = [], ResponseFormat = None, Tools = tools\<rparr>)))"

subsection \<open>The response translator\<close>

text \<open>
  The loop over the tool calls of a vendor choice, with \<^verbatim>\<open>toolRequestParts\<close> as
  accumulator; \<^verbatim>\<open>jsonStringToMap\<close> panics on arguments that do not decode.
\<close>

fun translateCandidate_toolCalls ::
  "(string \<Rightarrow> 'm option) \<Rightarrow> 'm Part list \<Rightarrow> ToolCall list \<Rightarrow> failure + 'm Part list" where
  "translateCandidate_toolCalls unmarshal toolRequestParts [] = Inr toolRequestParts"
| "translateCandidate_toolCalls unmarshal toolRequestParts (toolCall # toolCalls) =
     (case jsonStringToMap unmarshal (FunctionCall.Arguments (ToolCall.Function toolCall)) of
        Inl err \<Rightarrow> Inl err
      | Inr input \<Rightarrow>
          translateCandidate_toolCalls unmarshal
            (toolRequestParts @
              [NewToolRequestPart
                 \<lparr>ToolRequest.Name = FunctionCall.Name (ToolCall.Function toolCall),
                  ToolRequest.Input = input\<rparr>])
            toolCalls)"

definition translateCandidate ::
  "(string \<Rightarrow> 'm option) \<Rightarrow> ChatCompletionChoice \<Rightarrow> bool \<Rightarrow> failure + 'm Candidate" where
  "translateCandidate unmarshal choice jsonMode =
     (let finishReason =
            (if ChatCompletionChoice.FinishReason choice = goopenai_FinishReasonStop
                \<or> ChatCompletionChoice.FinishReason choice = goopenai_FinishReasonToolCalls
               then FinishReasonStop
             else if ChatCompletionChoice.FinishReason choice = goopenai_FinishReasonLength
               then FinishReasonLength
             else if ChatCompletionChoice.FinishReason choice = goopenai_FinishReasonContentFilter
               then FinishReasonBlocked
             else if ChatCompletionChoice.FinishReason choice = goopenai_FinishReasonFunctionCall
               then FinishReasonOther
             else if ChatCompletionChoice.FinishReason choice = goopenai_FinishReasonNull
               then FinishReasonUnknown
             else FinishReasonUnknown);
          m = \<lparr>Message.Role = ai_RoleModel, Message.Content = []\<rparr>
      in
        (case translateCandidate_toolCalls unmarshal []
                (ToolCalls (ChatCompletionChoice.Message choice)) of
           Inl err \<Rightarrow> Inl err
         | Inr toolRequestParts \<Rightarrow>
             if length toolRequestParts > 0 then
               Inr \<lparr>Candidate.Index = ChatCompletionChoice.Index choice,
                    Candidate.FinishReason = finishReason,
                    Candidate.Message = m\<lparr>Message.Content := toolRequestParts\<rparr>\<rparr>
             else if jsonMode then
               Inr \<lparr>Candidate.Index = ChatCompletionChoice.Index choice,
                    Candidate.FinishReason = finishReason,
                    Candidate.Message =
                      m\<lparr>Message.Content := Message.Content m @
                          [NewDataPart
                             (ChatCompletionMessage.Content
                                (ChatCompletionChoice.Message choice))]\<rparr>\<rparr>
             else
               Inr \<lparr>Candidate.Index = ChatCompletionChoice.Index choice,
                    Candidate.FinishReason = finishReason,
                    Candidate.Message =
                      m\<lparr>Message.Content := Message.Content m @
                          [NewTextPart
                             (ChatCompletionMessage.Content
                                (ChatCompletionChoice.Message choice))]\<rparr>\<rparr>))"

fun translateResponse_loop ::
  "(string \<Rightarrow> 'm option) \<Rightarrow> bool \<Rightarrow> 'm Candidate list \<Rightarrow> ChatCompletionChoice list
     \<Rightarrow> failure + 'm Candidate list" where
  "translateResponse_loop unmarshal jsonMode candidates [] = Inr candidates"
| "translateResponse_loop unmarshal jsonMode candidates (c # cs) =
     (case translateCandidate unmarshal c jsonMode of
        Inl err \<Rightarrow> Inl err
      | Inr candidate \<Rightarrow>
          translateResponse_loop unmarshal jsonMode (candidates @ [candidate]) cs)"

definition translateResponse ::
  "(string \<Rightarrow> 'm option) \<Rightarrow> ChatCompletionResponse \<Rightarrow> bool
     \<Rightarrow> failure + ('m, 'f) GenerateResponse" where
  "translateResponse unmarshal resp jsonMode =
     (case translateResponse_loop unmarshal jsonMode [] (Choices resp) of
        Inl err \<Rightarrow> Inl err
      | Inr candidates \<Rightarrow>
          Inr \<lparr>GenerateResponse.Candidates = candidates,
               GenerateResponse.Usage =
                 Some \<lparr>InputTokens = PromptTokens (ChatCompletionResponse.Usage resp),
                       OutputTokens = CompletionTokens (ChatCompletionResponse.Usage resp),
                       GenerationUsage.TotalTokens =
                         Usage.TotalTokens (ChatCompletionResponse.Usage resp)\<rparr>,
               Custom = Some resp,
               Request = None\<rparr>)"

subsection \<open>The generation entry point\<close>

text \<open>
  The vendor client handle is what \<^verbatim>\<open>goopenai.NewClient\<close> builds from the API key.
  The chunk callback is a Go function value: calling it may change the caller's world
  \<open>'w\<close> and returns an error or nil; the parameter is \<open>None\<close> when the caller passes
  nil. \<^verbatim>\<open>generate\<close> threads the caller's world, so that a call of the callback
  would show in the world it returns.
\<close>

datatype Client = NewClient string

record 'm GenerateResponseChunk =
  Index :: int
  Content :: "'m Part list"

type_synonym ('m, 'w) callback = "'m GenerateResponseChunk \<Rightarrow> 'w \<Rightarrow> failure option \<times> 'w"

definition generate ::
  "(Client \<Rightarrow> ('m, 'g::zero) ChatCompletionRequest \<Rightarrow> string + ChatCompletionResponse)
     \<Rightarrow> ('m \<Rightarrow> string option) \<Rightarrow> (string \<Rightarrow> 'm option) \<Rightarrow> ('f::zero \<Rightarrow> 'g)
     \<Rightarrow> Client \<Rightarrow> string \<Rightarrow> ('m, 'f) GenerateRequest \<Rightarrow> ('m, 'w) callback option \<Rightarrow> 'w
     \<Rightarrow> (failure + ('m, 'f) GenerateResponse) \<times> 'w" where
  "generate create marshal unmarshal narrow client model input cb w =
     (case convertRequest marshal narrow model input of
        Inl err \<Rightarrow> (Inl err, w)
      | Inr req \<Rightarrow>
     (case create client req of
        Inl err \<Rightarrow> (Inl (Err (VendorError err)), w)
      | Inr resp \<Rightarrow>
     (let jsonMode =
            (case Output input of
               None \<Rightarrow> False
             | Some output \<Rightarrow> Format output = ai_OutputFormatJSON)
      in
        (case translateResponse unmarshal resp jsonMode of
           Inl err \<Rightarrow> (Inl err, w)
         | Inr r \<Rightarrow> (Inr (r\<lparr>Request := Some input\<rparr>), w)))))"

subsection \<open>The capability registry\<close>

definition provider :: string where "provider = ''openai''"
definition labelPrefix :: string where "labelPrefix = ''OpenAI''"

text \<open>
  \<^verbatim>\<open>Multimodal\<close> and \<^verbatim>\<open>BasicText\<close> are declared in another file of the package;
  they carry the values the earlier revision of \<^verbatim>\<open>knownCaps\<close> spells out for the
  same four models.
\<close>

definition Multimodal :: ModelCapabilities where
  "Multimodal = \<lparr>Multiturn = True, ModelCapabilities.Tools = True, SystemRole = True, Media = True\<rparr>"

definition BasicText :: ModelCapabilities where
  "BasicText = \<lparr>Multiturn = True, ModelCapabilities.Tools = True, SystemRole = True, Media = False\<rparr>"

text \<open>The table is a Go map: looked up with \<open>map_of\<close>; its keys are distinct.\<close>

definition knownCaps :: "(string \<times> ModelCapabilities) list" where
  "knownCaps =
     [(goopenai_GPT4o, Multimodal),
      (goopenai_GPT4oMini, Multimodal),
      (goopenai_GPT4Turbo, Multimodal),
      (goopenai_GPT4, BasicText)]"

text \<open>
  The package state. The mutex is left out: the model is sequential, and each operation
  below is one critical section. \<open>host\<close> is the state of the host framework's
  registry, which only \<open>reg\<close> (\<^verbatim>\<open>ai.DefineModel\<close>) reads and writes.
\<close>

record 'h state =
  initted :: bool
  client :: "Client option"
  host :: 'h

record Config =
  APIKey :: string

text \<open>
  \<^verbatim>\<open>defineModel\<close> hands the provider, the name and the metadata to the host. The
  generation closure it also hands over is \<^verbatim>\<open>generate\<close> bound to this name and
  to the shared client, so the name stands for it here. Whether the host accepts the
  registration is the host's matter: \<open>reg\<close> returns the model handle or a panic.
\<close>

definition defineModel ::
  "(string \<Rightarrow> string \<Rightarrow> ModelMetadata \<Rightarrow> 'h \<Rightarrow> (failure + 'model) \<times> 'h)
     \<Rightarrow> string \<Rightarrow> ModelCapabilities \<Rightarrow> 'h state \<Rightarrow> (failure + 'model) \<times> 'h state" where
  "defineModel reg name caps s =
     (let meta = \<lparr>Label = labelPrefix @ '' - '' @ name, Supports = caps\<rparr>
      in case reg provider name meta (host s) of
           (r, h') \<Rightarrow> (r, s\<lparr>host := h'\<rparr>))"

definition DefineModel ::
  "(string \<Rightarrow> string \<Rightarrow> ModelMetadata \<Rightarrow> 'h \<Rightarrow> (failure + 'model) \<times> 'h)
     \<Rightarrow> string \<Rightarrow> ModelCapabilities option \<Rightarrow> 'h state \<Rightarrow> (failure + 'model) \<times> 'h state" where
  "DefineModel reg name caps s =
     (if \<not> initted s then (Inl (Panic InitNotCalled), s)
      else
        (case caps of
           None \<Rightarrow>
             (case map_of knownCaps name of
                None \<Rightarrow> (Inl (Err (DefineModelUnknown name)), s)
              | Some mc \<Rightarrow> defineModel reg name mc s)
         | Some mc \<Rightarrow> defineModel reg name mc s))"

text \<open>
  The loop of \<^verbatim>\<open>Init\<close> over \<^verbatim>\<open>knownCaps\<close>. Go visits the keys of a map in an
  unspecified order, so the order \<open>ks\<close> is an argument; a panic of the host ends
  the loop.
\<close>

fun Init_loop ::
  "(string \<Rightarrow> string \<Rightarrow> ModelMetadata \<Rightarrow> 'h \<Rightarrow> (failure + 'model) \<times> 'h)
     \<Rightarrow> string list \<Rightarrow> 'h state \<Rightarrow> failure option \<times> 'h state" where
  "Init_loop reg [] s = (None, s)"
| "Init_loop reg (model # ks) s =
     (case map_of knownCaps model of
        None \<Rightarrow> Init_loop reg ks s
      | Some caps \<Rightarrow>
          (case defineModel reg model caps s of
             (Inl err, s') \<Rightarrow> (Some err, s')
           | (Inr _, s') \<Rightarrow> Init_loop reg ks s'))"

text \<open>
  \<open>env\<close> is the value of the environment variable \<^verbatim>\<open>OPENAI_API_KEY\<close>, empty
  when it is not set; \<open>cfg\<close> is \<open>None\<close> for a nil configuration.
\<close>

definition Init ::
  "(string \<Rightarrow> string \<Rightarrow> ModelMetadata \<Rightarrow> 'h \<Rightarrow> (failure + 'model) \<times> 'h)
     \<Rightarrow> string list \<Rightarrow> string \<Rightarrow> Config option \<Rightarrow> 'h state
     \<Rightarrow> failure option \<times> 'h state" where
  "Init reg ks env cfg s =
     (let cfg' = (case cfg of None \<Rightarrow> \<lparr>APIKey = ''''\<rparr> | Some c \<Rightarrow> c)
      in
        if initted s then (Some (Panic InitNotCalled), s)
        else
          (let apiKey = (if APIKey cfg' = '''' then env else APIKey cfg')
           in
             if apiKey = '''' then (Some (Err InitNoAPIKey), s)
             else Init_loop reg ks (s\<lparr>client := Some (NewClient apiKey), initted := True\<rparr>)))"

text \<open>
  The states in which the plugin can be after \<^verbatim>\<open>Init\<close> has succeeded: the one
  \<^verbatim>\<open>Init\<close> leaves, and every state a later \<^verbatim>\<open>DefineModel\<close> leaves. The loop of
  \<^verbatim>\<open>Init\<close> visits every key of \<^verbatim>\<open>knownCaps\<close> once.
\<close>

inductive after_Init ::
  "(string \<Rightarrow> string \<Rightarrow> ModelMetadata \<Rightarrow> 'h \<Rightarrow> (failure + 'model) \<times> 'h)
     \<Rightarrow> 'h state \<Rightarrow> bool"
  for reg :: "string \<Rightarrow> string \<Rightarrow> ModelMetadata \<Rightarrow> 'h \<Rightarrow> (failure + 'model) \<times> 'h" where
    after_Init_Init:
      "distinct ks \<Longrightarrow> set ks = fst ` set knownCaps \<Longrightarrow>
       Init reg ks env cfg s0 = (None, s) \<Longrightarrow> after_Init reg s"
  | after_Init_DefineModel:
      "after_Init reg s \<Longrightarrow> DefineModel reg name caps s = (r, s') \<Longrightarrow> after_Init reg s'"

subsection \<open>Go's conversion from float64 to float32\<close>

text \<open>
  The translator is parametric in the conversion (\<open>narrow\<close> above). This is the
  conversion Go performs, for the finite values: a finite \<^verbatim>\<open>float64\<close> is the real
  number it denotes (NaN, the infinities and the negative zero are left out), and
  \<^verbatim>\<open>float32(x)\<close> rounds it to the nearest single-precision value, ties to even:
  24 bits of precision, spacing \<open>2^-149\<close> below the smallest normal value
  \<open>2^-126\<close>, and an infinity from \<open>2^128\<close> on.
\<close>

datatype float32 = Float32 real | Float32_PosInf | Float32_NegInf

instantiation float32 :: zero
begin

definition zero_float32 :: float32 where
  "zero_float32 = Float32 0"

instance ..

end

definition roundToEven :: "real \<Rightarrow> int" where
  "roundToEven y =
     (let n = \<lfloor>y\<rfloor> in
        if y - of_int n < 1 / 2 then n
        else if y - of_int n > 1 / 2 then n + 1
        else if even n then n else n + 1)"

text \<open>The spacing of the single-precision values around \<open>x\<close>.\<close>

definition float32_ulp :: "real \<Rightarrow> real" where
  "float32_ulp x =
     (if \<bar>x\<bar> < 1 / 2 ^ 126 then 1 / 2 ^ 149
      else 2 powr (of_int \<lfloor>log 2 \<bar>x\<bar>\<rfloor> - 23))"

definition float32_of_float64 :: "real \<Rightarrow> float32" where
  "float32_of_float64 x =
     (let y = of_int (roundToEven (x / float32_ulp x)) * float32_ulp x in
        if y \<ge> 2 ^ 128 then Float32_PosInf
        else if y \<le> - (2 ^ 128) then Float32_NegInf
        else Float32 y)"

subsection \<open>Concrete instances of the parameters\<close>

text \<open>
  To run the definitions on concrete inputs: a mapping is an association list here, and
  the codec knows two mappings; the transport answers every request with one choice;
  the callback counts its calls in the caller's world.
\<close>

definition example_marshal :: "(string \<times> int) list \<Rightarrow> string option" where
  \<open>example_marshal m =
     (if m = [] then Some ''{}''
      else if m = [(''x'', 1)] then Some ''{"x":1}''
      else None)\<close>

definition example_unmarshal :: "string \<Rightarrow> (string \<times> int) list option" where
  \<open>example_unmarshal s =
     (if s = ''{}'' then Some []
      else if s = ''{"x":1}'' then Some [(''x'', 1)]
      else None)\<close>

definition example_choice :: "string \<Rightarrow> ToolCall list \<Rightarrow> ChatCompletionChoice" where
  "example_choice finishReason toolCalls =
     \<lparr>ChatCompletionChoice.Index = 0,
      ChatCompletionChoice.Message =
        ChatCompletionMessage_zero
          \<lparr>ChatCompletionMessage.Role := ''assistant'',
           ChatCompletionMessage.Content := ''France'',
           ChatCompletionMessage.ToolCalls := toolCalls\<rparr>,
      ChatCompletionChoice.FinishReason = finishReason\<rparr>"

definition example_toolCall :: ToolCall where
  \<open>example_toolCall =
     \<lparr>ToolCall.ID = ''call_1'', ToolCall.Type = ''function'',
      ToolCall.Function =
        \<lparr>FunctionCall.Name = ''lookup'', FunctionCall.Arguments = ''{"x":1}''\<rparr>\<rparr>\<close>

definition example_config :: "real GenerationCommonConfig" where
  "example_config =
     \<lparr>MaxOutputTokens = 0, StopSequences = [], GenerationCommonConfig.Temperature = 1,
      TopK = 0, GenerationCommonConfig.TopP = 0\<rparr>"

definition example_request ::
  "real ConfigValue \<Rightarrow> (string \<times> int) list GenerateRequestOutput option
     \<Rightarrow> ((string \<times> int) list, real) GenerateRequest" where
  "example_request config output =
     \<lparr>GenerateRequest.Candidates = 1,
      Config = config,
      GenerateRequest.Messages =
        [\<lparr>Message.Role = ''user'', Message.Content = [NewTextPart ''Hello'']\<rparr>],
      Output = output,
      GenerateRequest.Tools = []\<rparr>"

definition example_vendor_request ::
  "string \<Rightarrow> ((string \<times> int) list, real) ChatCompletionRequest" where
  "example_vendor_request model =
     \<lparr>Model = model,
      Messages =
        [ChatCompletionMessage_zero
           \<lparr>ChatCompletionMessage.Role := ''user'',
            MultiContent :=
              [\<lparr>ChatMessagePart.Type = ''text'', ChatMessagePart.Text = ''Hello'',
                ImageURL = None\<rparr>]\<rparr>],
      MaxTokens = 0, Temperature = 0, TopP = 0, N = 1, Stop = [],
      ResponseFormat = None, Tools = []\<rparr>"

definition example_create ::
  "Client \<Rightarrow> ((string \<times> int) list, real) ChatCompletionRequest
     \<Rightarrow> string + ChatCompletionResponse" where
  "example_create cl req =
     Inr \<lparr>Choices = [example_choice ''stop'' []],
          ChatCompletionResponse.Usage =
            \<lparr>PromptTokens = 21, CompletionTokens = 1, Usage.TotalTokens = 22\<rparr>\<rparr>"

definition example_cb :: "((string \<times> int) list, nat) callback" where
  "example_cb chunk n = (None, Suc n)"

text \<open>
  Go values of type \<^verbatim>\<open>any\<close>, as far as the examples need them: a mapping may hold
  an \<^verbatim>\<open>int\<close> or a \<^verbatim>\<open>float64\<close> under a key, and they are different values even
  when they denote the same number. The codec below is \<^verbatim>\<open>encoding/json\<close> on three
  mappings, after its documentation: \<^verbatim>\<open>Marshal\<close> writes integer and floating-point
  values alike as JSON numbers, and \<^verbatim>\<open>Unmarshal\<close> into a \<^verbatim>\<open>map[string]any\<close>
  stores every JSON number as a \<^verbatim>\<open>float64\<close>. It says nothing on other inputs.
\<close>

datatype any = AnyNil | AnyBool bool | AnyInt int | AnyFloat64 real | AnyString string



text \<open>
  The host registration, after genkit's registry: an action is stored under its
  provider and name, and registering a name the registry already holds panics
  (\<^verbatim>\<open>"... is already registered"\<close>). The model handle is the key it is stored under.
\<close>

definition ai_DefineModel ::
  "string \<Rightarrow> string \<Rightarrow> ModelMetadata \<Rightarrow> ((string \<times> string) \<times> ModelMetadata) list
     \<Rightarrow> (failure + string \<times> string) \<times> ((string \<times> string) \<times> ModelMetadata) list" where
  "ai_DefineModel prov name meta h =
     (if (prov, name) \<in> fst ` set h then (Inl (Panic (HostPanic (prov @ ''/'' @ name))), h)
      else (Inr (prov, name), h @ [((prov, name), meta)]))"

definition example_state :: "((string \<times> string) \<times> ModelMetadata) list state" where
  "example_state =
     \<lparr>initted = True, client = Some (NewClient ''sk-test''),
      host =
        [((''openai'', ''gpt-4o''), \<lparr>Label = ''OpenAI - gpt-4o'', Supports = Multimodal\<rparr>),
         ((''openai'', ''gpt-4o-mini''),
          \<lparr>Label = ''OpenAI - gpt-4o-mini'', Supports = Multimodal\<rparr>),
         ((''openai'', ''gpt-4-turbo''),
          \<lparr>Label = ''OpenAI - gpt-4-turbo'', Supports = Multimodal\<rparr>),
         ((''openai'', ''gpt-4''), \<lparr>Label = ''OpenAI - gpt-4'', Supports = BasicText\<rparr>)]\<rparr>"

definition example_vendor_request_float32 ::
  "string \<Rightarrow> ((string \<times> int) list, float32) ChatCompletionRequest" where
  "example_vendor_request_float32 model =
     \<lparr>Model = model,
      Messages =
        [ChatCompletionMessage_zero
           \<lparr>ChatCompletionMessage.Role := ''user'',
            MultiContent :=
              [\<lparr>ChatMessagePart.Type = ''text'', ChatMessagePart.Text = ''Hello'',
                ImageURL = None\<rparr>]\<rparr>],
      MaxTokens = 0, Temperature = 0, TopP = 0, N = 1, Stop = [],
      ResponseFormat = None, Tools = []\<rparr>"

section \<open>Properties\<close>

lemmas ai_role_consts = ai_RoleSystem_def ai_RoleUser_def ai_RoleModel_def ai_RoleTool_def

lemmas role_consts = goopenai_ChatMessageRoleSystem_def goopenai_ChatMessageRoleUser_def
  goopenai_ChatMessageRoleAssistant_def goopenai_ChatMessageRoleFunction_def
  goopenai_ChatMessageRoleTool_def

lemmas finish_consts = goopenai_FinishReasonStop_def goopenai_FinishReasonLength_def
  goopenai_FinishReasonFunctionCall_def goopenai_FinishReasonToolCalls_def
  goopenai_FinishReasonContentFilter_def goopenai_FinishReasonNull_def

lemmas format_consts = ai_OutputFormatJSON_def ai_OutputFormatText_def
  goopenai_ChatCompletionResponseFormatTypeJSONObject_def
  goopenai_ChatCompletionResponseFormatTypeText_def

lemmas model_consts = goopenai_GPT4o_def goopenai_GPT4oMini_def goopenai_GPT4Turbo_def
  goopenai_GPT4_def modelsSupportingResponseFormats_def

lemmas part_consts = goopenai_ChatMessagePartTypeText_def
  goopenai_ChatMessagePartTypeImageURL_def goopenai_ImageURLDetailAuto_def
  goopenai_ToolTypeFunction_def

subsection \<open>Configuration fields\<close>

lemma convertRequest_config_fields:
  "MaxTokens (convertRequest_config narrow (ConfigCommon (Some c)) r0) =
     (if MaxOutputTokens c \<noteq> 0 then MaxOutputTokens c else MaxTokens r0)"
  "Stop (convertRequest_config narrow (ConfigCommon (Some c)) r0) =
     (if StopSequences c \<noteq> [] then StopSequences c else Stop r0)"
  "ChatCompletionRequest.Temperature (convertRequest_config narrow (ConfigCommon (Some c)) r0) =
     (if GenerationCommonConfig.Temperature c \<noteq> 0
      then narrow (GenerationCommonConfig.Temperature c)
      else ChatCompletionRequest.Temperature r0)"
  "ChatCompletionRequest.TopP (convertRequest_config narrow (ConfigCommon (Some c)) r0) =
     (if GenerationCommonConfig.TopP c \<noteq> 0
      then narrow (GenerationCommonConfig.TopP c)
      else ChatCompletionRequest.TopP r0)"
  by (simp_all add: convertRequest_config_def Let_def)

lemma convertRequest_config_ResponseFormat:
  "ResponseFormat (convertRequest_config narrow config r0) = ResponseFormat r0"
  by (simp add: convertRequest_config_def Let_def split: ConfigValue.splits option.splits)

lemma convertRequest_format_fields:
  assumes "convertRequest_format model output r0 = Inr r"
  shows "MaxTokens r = MaxTokens r0" "Stop r = Stop r0"
    "ChatCompletionRequest.Temperature r = ChatCompletionRequest.Temperature r0"
    "ChatCompletionRequest.TopP r = ChatCompletionRequest.TopP r0"
  using assms
  by (auto simp: convertRequest_format_def split: option.splits if_splits)

lemma convertRequest_Inr_format:
  assumes "convertRequest marshal narrow model input = Inr r"
  obtains messages tools where
    "convertMessages marshal (GenerateRequest.Messages input) = Inr messages"
    "convertTools marshal (GenerateRequest.Tools input) = Inr tools"
    "convertRequest_format model (Output input)
       (convertRequest_config narrow (Config input)
          \<lparr>Model = model, Messages = messages, MaxTokens = 0,
           Temperature = 0, TopP = 0, N = GenerateRequest.Candidates input,
           Stop = [], ResponseFormat = None, Tools = tools\<rparr>) = Inr r"
proof -
  from assms obtain messages where
    m: "convertMessages marshal (GenerateRequest.Messages input) = Inr messages"
    by (cases "convertMessages marshal (GenerateRequest.Messages input)")
       (simp_all add: convertRequest_def)
  from assms m obtain tools where
    t: "convertTools marshal (GenerateRequest.Tools input) = Inr tools"
    by (cases "convertTools marshal (GenerateRequest.Tools input)")
       (simp_all add: convertRequest_def)
  from assms m t that show thesis by (simp add: convertRequest_def)
qed

text \<open>
  The request of the sample flow: one user message \<open>Hello\<close>, converted for a model.
\<close>

lemma convertMessages_example:
  "convertMessages example_marshal
     [\<lparr>Message.Role = ''user'', Message.Content = [NewTextPart ''Hello'']\<rparr>] =
   Inr [ChatCompletionMessage_zero
          \<lparr>ChatCompletionMessage.Role := ''user'',
           MultiContent :=
             [\<lparr>ChatMessagePart.Type = ''text'', ChatMessagePart.Text = ''Hello'',
               ImageURL = None\<rparr>]\<rparr>]"
  by (simp add: convertMessages_def fromAIRoleToOpenAIRole_def ai_role_consts role_consts
        toOpenAiTextAndMedia_def IsText_def NewTextPart_def part_consts)

lemma convertRequest_example:
  "convertRequest example_marshal narrow model (example_request config output) =
     convertRequest_format model output
       (convertRequest_config narrow config (example_vendor_request model))"
  by (simp add: convertRequest_def example_request_def convertMessages_example
        convertTools_def example_vendor_request_def)

lemma convertRequest_format_bare_fields:
  assumes "convertRequest_format_bare model output r0 = Inr r"
  shows "MaxTokens r = MaxTokens r0" "Stop r = Stop r0"
    "ChatCompletionRequest.Temperature r = ChatCompletionRequest.Temperature r0"
    "ChatCompletionRequest.TopP r = ChatCompletionRequest.TopP r0"
  using assms
  by (auto simp: convertRequest_format_bare_def split: option.splits if_splits)

lemma convertRequest_rev_Inr_format:
  assumes "convertRequest_rev marshal narrow model input = Inr r"
  obtains messages tools where
    "convertRequest_format_bare model (Output input)
       (convertRequest_config narrow (Config input)
          \<lparr>Model = model, Messages = messages, MaxTokens = 0,
           Temperature = 0, TopP = 0, N = GenerateRequest.Candidates input,
           Stop = [], ResponseFormat = None, Tools = tools\<rparr>) = Inr r"
proof -
  from assms obtain messages where
    m: "convertMessages_rev marshal (GenerateRequest.Messages input) = Inr messages"
    by (cases "convertMessages_rev marshal (GenerateRequest.Messages input)")
       (simp_all add: convertRequest_rev_def)
  from assms m obtain tools where
    t: "convertTools marshal (GenerateRequest.Tools input) = Inr tools"
    by (cases "convertTools marshal (GenerateRequest.Tools input)")
       (simp_all add: convertRequest_rev_def)
  from assms m t that show thesis by (simp add: convertRequest_rev_def)
qed

text \<open>
  What both revisions return from a non-nil common configuration, for any conversion.
\<close>

lemma convertRequest_config_result:
  assumes "Config input = ConfigCommon (Some c)"
    and "convertRequest marshal narrow model input = Inr r
         \<or> convertRequest_rev marshal narrow model input = Inr r"
  shows "MaxTokens r = (if MaxOutputTokens c \<noteq> 0 then MaxOutputTokens c else 0)"
    "Stop r = (if StopSequences c \<noteq> [] then StopSequences c else [])"
    "ChatCompletionRequest.Temperature r =
       (if GenerationCommonConfig.Temperature c \<noteq> 0
        then narrow (GenerationCommonConfig.Temperature c) else 0)"
    "ChatCompletionRequest.TopP r =
       (if GenerationCommonConfig.TopP c \<noteq> 0
        then narrow (GenerationCommonConfig.TopP c) else 0)"
proof -
  have "MaxTokens r = (if MaxOutputTokens c \<noteq> 0 then MaxOutputTokens c else 0)
      \<and> Stop r = (if StopSequences c \<noteq> [] then StopSequences c else [])
      \<and> ChatCompletionRequest.Temperature r =
          (if GenerationCommonConfig.Temperature c \<noteq> 0
           then narrow (GenerationCommonConfig.Temperature c) else 0)
      \<and> ChatCompletionRequest.TopP r =
          (if GenerationCommonConfig.TopP c \<noteq> 0
           then narrow (GenerationCommonConfig.TopP c) else 0)"
    using assms(2)
  proof
    assume a: "convertRequest marshal narrow model input = Inr r"
    from a obtain messages tools where
      "convertRequest_format model (Output input)
         (convertRequest_config narrow (ConfigCommon (Some c))
            \<lparr>Model = model, Messages = messages, MaxTokens = 0,
             Temperature = 0, TopP = 0, N = GenerateRequest.Candidates input,
             Stop = [], ResponseFormat = None, Tools = tools\<rparr>) = Inr r"
      unfolding assms(1) [symmetric] by (rule convertRequest_Inr_format)
    from convertRequest_format_fields [OF this] show ?thesis
      by (simp add: convertRequest_config_fields)
  next
    assume a: "convertRequest_rev marshal narrow model input = Inr r"
    from a obtain messages tools where
      "convertRequest_format_bare model (Output input)
         (convertRequest_config narrow (ConfigCommon (Some c))
            \<lparr>Model = model, Messages = messages, MaxTokens = 0,
             Temperature = 0, TopP = 0, N = GenerateRequest.Candidates input,
             Stop = [], ResponseFormat = None, Tools = tools\<rparr>) = Inr r"
      unfolding assms(1) [symmetric] by (rule convertRequest_rev_Inr_format)
    from convertRequest_format_bare_fields [OF this] show ?thesis
      by (simp add: convertRequest_config_fields)
  qed
  then show "MaxTokens r = (if MaxOutputTokens c \<noteq> 0 then MaxOutputTokens c else 0)"
    "Stop r = (if StopSequences c \<noteq> [] then StopSequences c else [])"
    "ChatCompletionRequest.Temperature r =
       (if GenerationCommonConfig.Temperature c \<noteq> 0
        then narrow (GenerationCommonConfig.Temperature c) else 0)"
    "ChatCompletionRequest.TopP r =
       (if GenerationCommonConfig.TopP c \<noteq> 0
        then narrow (GenerationCommonConfig.TopP c) else 0)"
    by simp_all
qed

text \<open>Facts about the conversion to single precision.\<close>

lemma roundToEven_small:
  assumes "- (1 / 2) \<le> y" and "y \<le> 1 / 2"
  shows "roundToEven y = 0"
proof (cases "0 \<le> y")
  case True
  with assms have "\<lfloor>y\<rfloor> = 0" by (intro floor_unique) simp_all
  with assms True show ?thesis by (simp add: roundToEven_def Let_def)
next
  case False
  with assms have "\<lfloor>y\<rfloor> = - 1" by (intro floor_unique) simp_all
  with assms False show ?thesis by (auto simp: roundToEven_def Let_def)
qed

lemma float32_of_float64_underflow:
  assumes "\<bar>x\<bar> \<le> 1 / 2 ^ 150"
  shows "float32_of_float64 x = 0"
proof -
  have "(1::real) / 2 ^ 150 < 1 / 2 ^ 126" by simp
  with assms have u: "float32_ulp x = 1 / 2 ^ 149" by (simp add: float32_ulp_def)
  have "\<bar>x / float32_ulp x\<bar> = \<bar>x\<bar> * 2 ^ 149" unfolding u by (simp add: abs_mult)
  also from assms have "\<dots> \<le> 1 / 2 ^ 150 * 2 ^ 149" by (intro mult_right_mono) simp_all
  also have "\<dots> = 1 / 2" by simp
  finally have "\<bar>x / float32_ulp x\<bar> \<le> 1 / 2" .
  then have "- (1 / 2) \<le> x / float32_ulp x" and "x / float32_ulp x \<le> 1 / 2"
    by linarith+
  then have "roundToEven (x / float32_ulp x) = 0"
    by (rule roundToEven_small)
  then show ?thesis by (simp add: float32_of_float64_def zero_float32_def Let_def)
qed

lemma float32_of_float64_one: "float32_of_float64 1 = Float32 1"
proof -
  have u: "float32_ulp 1 = 1 / 2 ^ 23"
    by (simp add: float32_ulp_def powr_minus divide_simps)
  have "roundToEven (1 / (1 / 2 ^ 23)) = 2 ^ 23"
    by (simp add: roundToEven_def Let_def)
  then show ?thesis by (simp add: float32_of_float64_def u Let_def)
qed

lemma convertRequest_example_float32:
  "convertRequest example_marshal float32_of_float64 model (example_request config output) =
     convertRequest_format model output
       (convertRequest_config float32_of_float64 config (example_vendor_request_float32 model))"
  by (simp add: convertRequest_def example_request_def convertMessages_example
        convertTools_def example_vendor_request_float32_def)

text \<open>
  C1, as stated, fails for the two floating-point fields: \<^verbatim>\<open>float32(c.TopP)\<close> is not
  a copy. The non-zero \<^verbatim>\<open>TopP\<close> \<open>2^-200\<close> is forwarded as zero, so the vendor field
  has its zero/absent value although the configured value is not zero.
\<close>

theorem convertRequest_Config_forwarding_counterexample:
  "(1 / 2 ^ 200 :: real) \<noteq> 0
   \<and> convertRequest example_marshal float32_of_float64 ''gpt-4o-mini''
       (example_request
          (ConfigCommon
             (Some \<lparr>MaxOutputTokens = 0, StopSequences = [],
                    GenerationCommonConfig.Temperature = 0, TopK = 0,
                    GenerationCommonConfig.TopP = 1 / 2 ^ 200\<rparr>))
          None) =
     Inr (example_vendor_request_float32 ''gpt-4o-mini'')
   \<and> ChatCompletionRequest.TopP (example_vendor_request_float32 ''gpt-4o-mini'') = 0"
proof -
  have "float32_of_float64 (1 / 2 ^ 200) = 0"
    by (rule float32_of_float64_underflow) simp
  then show ?thesis
    by (simp add: convertRequest_example_float32 convertRequest_format_def
          convertRequest_config_def example_vendor_request_float32_def)
qed

text \<open>
  C1, amended. For a request whose \<^verbatim>\<open>Config\<close> is a (non-nil)
  \<^verbatim>\<open>GenerationCommonConfig\<close>, every request that \<^verbatim>\<open>convertRequest\<close> returns (in
  either revision) has: \<^verbatim>\<open>MaxTokens\<close> zero when \<^verbatim>\<open>MaxOutputTokens\<close> is zero and
  the same value otherwise; \<^verbatim>\<open>Stop\<close> empty when \<^verbatim>\<open>StopSequences\<close> is empty and the
  same list otherwise; \<^verbatim>\<open>Temperature\<close> and \<^verbatim>\<open>TopP\<close> zero when the configured value
  is zero, and otherwise the configured value converted by \<^verbatim>\<open>float32(...)\<close>, that is
  rounded to single precision. The converted value is the configured one when that is
  a single-precision value, and it is zero again when the configured value is at most
  \<open>2^-150\<close> in magnitude.
\<close>

theorem convertRequest_Config_forwarding:
  assumes "Config input = ConfigCommon (Some c)"
    and "convertRequest marshal float32_of_float64 model input = Inr r
         \<or> convertRequest_rev marshal float32_of_float64 model input = Inr r"
  shows "MaxTokens r = (if MaxOutputTokens c = 0 then 0 else MaxOutputTokens c)
       \<and> Stop r = (if StopSequences c = [] then [] else StopSequences c)
       \<and> ChatCompletionRequest.Temperature r =
           (if GenerationCommonConfig.Temperature c = 0 then 0
            else float32_of_float64 (GenerationCommonConfig.Temperature c))
       \<and> ChatCompletionRequest.TopP r =
           (if GenerationCommonConfig.TopP c = 0 then 0
            else float32_of_float64 (GenerationCommonConfig.TopP c))
       \<and> (float32_of_float64 (GenerationCommonConfig.Temperature c) =
             Float32 (GenerationCommonConfig.Temperature c) \<longrightarrow>
           ChatCompletionRequest.Temperature r = Float32 (GenerationCommonConfig.Temperature c))
       \<and> (float32_of_float64 (GenerationCommonConfig.TopP c) =
             Float32 (GenerationCommonConfig.TopP c) \<longrightarrow>
           ChatCompletionRequest.TopP r = Float32 (GenerationCommonConfig.TopP c))
       \<and> (\<bar>GenerationCommonConfig.Temperature c\<bar> \<le> 1 / 2 ^ 150 \<longrightarrow>
           ChatCompletionRequest.Temperature r = 0)
       \<and> (\<bar>GenerationCommonConfig.TopP c\<bar> \<le> 1 / 2 ^ 150 \<longrightarrow>
           ChatCompletionRequest.TopP r = 0)"
proof -
  note res = convertRequest_config_result [OF assms]
  have z: "Float32 0 = 0" by (simp add: zero_float32_def)
  from res(1) have 1: "MaxTokens r = (if MaxOutputTokens c = 0 then 0 else MaxOutputTokens c)"
    by simp
  from res(2) have 2: "Stop r = (if StopSequences c = [] then [] else StopSequences c)"
    by simp
  from res(3) have 3: "ChatCompletionRequest.Temperature r =
           (if GenerationCommonConfig.Temperature c = 0 then 0
            else float32_of_float64 (GenerationCommonConfig.Temperature c))"
    by simp
  from res(4) have 4: "ChatCompletionRequest.TopP r =
           (if GenerationCommonConfig.TopP c = 0 then 0
            else float32_of_float64 (GenerationCommonConfig.TopP c))"
    by simp
  from 3 z have 5: "float32_of_float64 (GenerationCommonConfig.Temperature c) =
             Float32 (GenerationCommonConfig.Temperature c) \<longrightarrow>
           ChatCompletionRequest.Temperature r = Float32 (GenerationCommonConfig.Temperature c)"
    by (cases "GenerationCommonConfig.Temperature c = 0") simp_all
  from 4 z have 6: "float32_of_float64 (GenerationCommonConfig.TopP c) =
             Float32 (GenerationCommonConfig.TopP c) \<longrightarrow>
           ChatCompletionRequest.TopP r = Float32 (GenerationCommonConfig.TopP c)"
    by (cases "GenerationCommonConfig.TopP c = 0") simp_all
  from 3 have 7: "\<bar>GenerationCommonConfig.Temperature c\<bar> \<le> 1 / 2 ^ 150 \<longrightarrow>
           ChatCompletionRequest.Temperature r = 0"
    by (simp add: float32_of_float64_underflow)
  from 4 have 8: "\<bar>GenerationCommonConfig.TopP c\<bar> \<le> 1 / 2 ^ 150 \<longrightarrow>
           ChatCompletionRequest.TopP r = 0"
    by (simp add: float32_of_float64_underflow)
  from 1 2 3 4 5 6 7 8 show ?thesis by blast
qed

text \<open>
  The sample flow's configuration sets \<^verbatim>\<open>Temperature: 1\<close> and nothing else: the
  vendor request carries the single-precision 1 and leaves the other three fields at
  zero. A configuration with 256 tokens, one stop sequence and the \<^verbatim>\<open>TopP\<close>
  \<open>2^-200\<close>: the first two are copied, the third arrives as zero.
\<close>

theorem convertRequest_Config_forwarding_witness:
  "convertRequest example_marshal float32_of_float64 ''gpt-4o-mini''
     (example_request (ConfigCommon (Some example_config)) None) =
     Inr ((example_vendor_request_float32 ''gpt-4o-mini'')
            \<lparr>ChatCompletionRequest.Temperature := Float32 1\<rparr>)
   \<and> MaxTokens ((example_vendor_request_float32 ''gpt-4o-mini'')
            \<lparr>ChatCompletionRequest.Temperature := Float32 1\<rparr>) = 0
   \<and> Stop ((example_vendor_request_float32 ''gpt-4o-mini'')
            \<lparr>ChatCompletionRequest.Temperature := Float32 1\<rparr>) = []
   \<and> ChatCompletionRequest.Temperature
        ((example_vendor_request_float32 ''gpt-4o-mini'')
            \<lparr>ChatCompletionRequest.Temperature := Float32 1\<rparr>) = Float32 1
   \<and> ChatCompletionRequest.TopP
        ((example_vendor_request_float32 ''gpt-4o-mini'')
            \<lparr>ChatCompletionRequest.Temperature := Float32 1\<rparr>) = 0
   \<and> ChatCompletionRequest.TopP
        (projr (convertRequest example_marshal float32_of_float64 ''gpt-4o-mini''
           (example_request
              (ConfigCommon
                 (Some \<lparr>MaxOutputTokens = 256, StopSequences = [''END''],
                        GenerationCommonConfig.Temperature = 0, TopK = 0,
                        GenerationCommonConfig.TopP = 1 / 2 ^ 200\<rparr>))
              None))) = 0
   \<and> MaxTokens
        (projr (convertRequest example_marshal float32_of_float64 ''gpt-4o-mini''
           (example_request
              (ConfigCommon
                 (Some \<lparr>MaxOutputTokens = 256, StopSequences = [''END''],
                        GenerationCommonConfig.Temperature = 0, TopK = 0,
                        GenerationCommonConfig.TopP = 1 / 2 ^ 200\<rparr>))
              None))) = 256
   \<and> Stop
        (projr (convertRequest example_marshal float32_of_float64 ''gpt-4o-mini''
           (example_request
              (ConfigCommon
                 (Some \<lparr>MaxOutputTokens = 256, StopSequences = [''END''],
                        GenerationCommonConfig.Temperature = 0, TopK = 0,
                        GenerationCommonConfig.TopP = 1 / 2 ^ 200\<rparr>))
              None))) = [''END'']"
proof -
  have k: "Config (example_request (ConfigCommon (Some example_config)) None) =
      ConfigCommon (Some example_config)"
    by (simp add: example_request_def)
  have c: "convertRequest example_marshal float32_of_float64 ''gpt-4o-mini''
     (example_request (ConfigCommon (Some example_config)) None) =
     Inr ((example_vendor_request_float32 ''gpt-4o-mini'')
            \<lparr>ChatCompletionRequest.Temperature := Float32 1\<rparr>)"
    by (simp add: convertRequest_example_float32 convertRequest_format_def
          convertRequest_config_def example_config_def float32_of_float64_one)
  let ?c = "\<lparr>MaxOutputTokens = 256, StopSequences = [''END''],
             GenerationCommonConfig.Temperature = 0 :: real, TopK = 0,
             GenerationCommonConfig.TopP = 1 / 2 ^ 200\<rparr>"
  have k': "Config (example_request (ConfigCommon (Some ?c)) None) = ConfigCommon (Some ?c)"
    by (simp add: example_request_def)
  have c': "convertRequest example_marshal float32_of_float64 ''gpt-4o-mini''
     (example_request (ConfigCommon (Some ?c)) None) =
     Inr (projr (convertRequest example_marshal float32_of_float64 ''gpt-4o-mini''
       (example_request (ConfigCommon (Some ?c)) None)))"
    by (simp add: convertRequest_example_float32 convertRequest_format_def)
  let ?r = "projr (convertRequest example_marshal float32_of_float64 ''gpt-4o-mini''
       (example_request (ConfigCommon (Some ?c)) None))"
  note w = convertRequest_Config_forwarding [OF k' disjI1 [OF c']]
  have u: "\<bar>GenerationCommonConfig.TopP ?c\<bar> \<le> 1 / 2 ^ 150" by simp
  from w [THEN conjunct2, THEN conjunct2, THEN conjunct2, THEN conjunct2, THEN conjunct2,
      THEN conjunct2, THEN conjunct2, THEN mp, OF u]
  have p: "ChatCompletionRequest.TopP ?r = 0" .
  from w [THEN conjunct1] have m: "MaxTokens ?r = 256" by simp
  from w [THEN conjunct2, THEN conjunct1] have t: "Stop ?r = [''END'']" by simp
  from convertRequest_Config_forwarding [OF k disjI1 [OF c]] c
  have first: "convertRequest example_marshal float32_of_float64 ''gpt-4o-mini''
     (example_request (ConfigCommon (Some example_config)) None) =
     Inr ((example_vendor_request_float32 ''gpt-4o-mini'')
            \<lparr>ChatCompletionRequest.Temperature := Float32 1\<rparr>)
   \<and> MaxTokens ((example_vendor_request_float32 ''gpt-4o-mini'')
            \<lparr>ChatCompletionRequest.Temperature := Float32 1\<rparr>) = 0
   \<and> Stop ((example_vendor_request_float32 ''gpt-4o-mini'')
            \<lparr>ChatCompletionRequest.Temperature := Float32 1\<rparr>) = []
   \<and> ChatCompletionRequest.Temperature
        ((example_vendor_request_float32 ''gpt-4o-mini'')
            \<lparr>ChatCompletionRequest.Temperature := Float32 1\<rparr>) = Float32 1
   \<and> ChatCompletionRequest.TopP
        ((example_vendor_request_float32 ''gpt-4o-mini'')
            \<lparr>ChatCompletionRequest.Temperature := Float32 1\<rparr>) = 0"
    by (simp add: example_config_def float32_of_float64_one)
  from first p m t show ?thesis by blast
qed

subsection \<open>Output format\<close>

lemma convertRequest_format_ResponseFormat:
  assumes "Format out = ai_OutputFormatJSON \<or> Format out = ai_OutputFormatText"
  shows "convertRequest_format model (Some out) r0 =
     Inr (if model \<in> set modelsSupportingResponseFormats then
            (if Format out = ai_OutputFormatJSON then
               r0\<lparr>ResponseFormat :=
                    Some \<lparr>ChatCompletionResponseFormat.Type =
                            goopenai_ChatCompletionResponseFormatTypeJSONObject,
                          JSONSchema =
                            Some \<lparr>Schema = \<lparr>Data = GenerateRequestOutput.Schema out\<rparr>,
                                  Strict = True\<rparr>\<rparr>\<rparr>
             else
               r0\<lparr>ResponseFormat :=
                    Some \<lparr>ChatCompletionResponseFormat.Type =
                            goopenai_ChatCompletionResponseFormatTypeText,
                          JSONSchema = None\<rparr>\<rparr>)
          else r0)"
  using assms by (auto simp: convertRequest_format_def ai_OutputFormatJSON_def ai_OutputFormatText_def)

text \<open>
  The revision without the schema agrees with \<^verbatim>\<open>convertRequest_format\<close> everywhere
  but in the JSON branch, where it sets the same type and leaves the schema out.
\<close>

lemma convertRequest_format_bare_JSON:
  assumes "Format out = ai_OutputFormatJSON" and "model \<in> set modelsSupportingResponseFormats"
  shows "convertRequest_format_bare model (Some out) r0 =
     Inr (r0\<lparr>ResponseFormat :=
                Some \<lparr>ChatCompletionResponseFormat.Type =
                        goopenai_ChatCompletionResponseFormatTypeJSONObject,
                      JSONSchema = None\<rparr>\<rparr>)"
  using assms by (simp add: convertRequest_format_bare_def ai_OutputFormatJSON_def)

lemma convertRequest_format_bare_other:
  assumes "\<not> (Format out = ai_OutputFormatJSON \<and> model \<in> set modelsSupportingResponseFormats)"
  shows "convertRequest_format_bare model (Some out) r0 = convertRequest_format model (Some out) r0"
  using assms by (auto simp: convertRequest_format_bare_def convertRequest_format_def)

text \<open>
  The two revisions convert messages alike: \<^verbatim>\<open>convertPart\<close> has the body of
  \<^verbatim>\<open>toOpenAiTextAndMedia\<close>.
\<close>

lemma convertPart_eq: "convertPart part = toOpenAiTextAndMedia part"
  by (simp add: convertPart_def toOpenAiTextAndMedia_def)

lemma convertMessages_multiContent_rev_eq:
  "convertMessages_multiContent_rev acc ps = convertMessages_multiContent acc ps"
  by (induction ps arbitrary: acc) (simp_all add: convertPart_eq split: sum.split)

lemma convertMessages_loop_rev_eq:
  "convertMessages_loop_rev marshal acc ms = convertMessages_loop marshal acc ms"
  by (induction ms arbitrary: acc)
     (simp_all add: convertMessages_multiContent_rev_eq split: sum.split list.split)

lemma convertMessages_rev_eq:
  "convertMessages_rev marshal ms = convertMessages marshal ms"
  by (simp add: convertMessages_rev_def convertMessages_def convertMessages_loop_rev_eq)

lemma convertRequest_format_bare_ResponseFormat:
  assumes "Format out = ai_OutputFormatJSON \<or> Format out = ai_OutputFormatText"
  shows "convertRequest_format_bare model (Some out) r0 =
     Inr (if model \<in> set modelsSupportingResponseFormats then
            (if Format out = ai_OutputFormatJSON then
               r0\<lparr>ResponseFormat :=
                    Some \<lparr>ChatCompletionResponseFormat.Type =
                            goopenai_ChatCompletionResponseFormatTypeJSONObject,
                          JSONSchema = None\<rparr>\<rparr>
             else
               r0\<lparr>ResponseFormat :=
                    Some \<lparr>ChatCompletionResponseFormat.Type =
                            goopenai_ChatCompletionResponseFormatTypeText,
                          JSONSchema = None\<rparr>\<rparr>)
          else r0)"
  using assms
  by (auto simp: convertRequest_format_bare_def ai_OutputFormatJSON_def ai_OutputFormatText_def)

text \<open>
  C3, as stated, fails on the revision without the marshaller: for the allow-listed
  model \<open>gpt-4o\<close> and the JSON format, the response format it sets has the JSON-object
  type and carries no schema.
\<close>

theorem convertRequest_ResponseFormat_counterexample:
  \<open>''json'' = ai_OutputFormatJSON \<and> ''gpt-4o'' \<in> set modelsSupportingResponseFormats
   \<and> convertRequest_rev example_marshal float32_of_float64 ''gpt-4o''
       (example_request ConfigNil (Some \<lparr>Format = ''json'', Schema = [(''x'', 1)]\<rparr>)) =
     Inr ((example_vendor_request_float32 ''gpt-4o'')
            \<lparr>ResponseFormat :=
               Some \<lparr>ChatCompletionResponseFormat.Type = ''json_object'',
                     JSONSchema = None\<rparr>\<rparr>)\<close>
  by (simp add: convertRequest_rev_def convertMessages_rev_eq example_request_def
        convertMessages_example convertTools_def convertRequest_config_def
        convertRequest_format_bare_def format_consts model_consts
        example_vendor_request_float32_def)

text \<open>
  C3, amended. For a request with \<^verbatim>\<open>Output.Format\<close> JSON or Text whose messages and
  tools convert, \<^verbatim>\<open>convertRequest\<close> returns a request (no error) in both revisions.
  For a model of the allow-list its \<^verbatim>\<open>ResponseFormat\<close> has the JSON-object type,
  respectively the text type; in the revision with \<^verbatim>\<open>MapJSONMarshaller\<close> the
  JSON-object format also carries a strict schema whose \<^verbatim>\<open>MarshalJSON\<close> is the JSON
  encoding of \<^verbatim>\<open>Output.Schema\<close>, in the other revision it carries no schema. For
  any other model \<^verbatim>\<open>ResponseFormat\<close> is nil.
\<close>

theorem convertRequest_ResponseFormat:
  assumes "Output input = Some out"
    and "Format out = ai_OutputFormatJSON \<or> Format out = ai_OutputFormatText"
    and "convertMessages marshal (GenerateRequest.Messages input) = Inr messages"
    and "convertTools marshal (GenerateRequest.Tools input) = Inr tools"
  shows "(\<exists>r. convertRequest marshal narrow model input = Inr r \<and>
     ResponseFormat r =
       (if model \<in> set modelsSupportingResponseFormats then
          (if Format out = ai_OutputFormatJSON then
             Some \<lparr>ChatCompletionResponseFormat.Type =
                     goopenai_ChatCompletionResponseFormatTypeJSONObject,
                   JSONSchema =
                     Some \<lparr>Schema = \<lparr>Data = GenerateRequestOutput.Schema out\<rparr>,
                           Strict = True\<rparr>\<rparr>
           else
             Some \<lparr>ChatCompletionResponseFormat.Type =
                     goopenai_ChatCompletionResponseFormatTypeText,
                   JSONSchema = None\<rparr>)
        else None) \<and>
     (\<forall>rf js. ResponseFormat r = Some rf \<and> JSONSchema rf = Some js \<longrightarrow>
        MarshalJSON marshal (Schema js) = marshal (GenerateRequestOutput.Schema out)))
   \<and> (\<exists>r. convertRequest_rev marshal narrow model input = Inr r \<and>
     ResponseFormat r =
       (if model \<in> set modelsSupportingResponseFormats then
          (if Format out = ai_OutputFormatJSON then
             Some \<lparr>ChatCompletionResponseFormat.Type =
                     goopenai_ChatCompletionResponseFormatTypeJSONObject,
                   JSONSchema = None\<rparr>
           else
             Some \<lparr>ChatCompletionResponseFormat.Type =
                     goopenai_ChatCompletionResponseFormatTypeText,
                   JSONSchema = None\<rparr>)
        else None))"
proof
  show "\<exists>r. convertRequest marshal narrow model input = Inr r \<and>
     ResponseFormat r =
       (if model \<in> set modelsSupportingResponseFormats then
          (if Format out = ai_OutputFormatJSON then
             Some \<lparr>ChatCompletionResponseFormat.Type =
                     goopenai_ChatCompletionResponseFormatTypeJSONObject,
                   JSONSchema =
                     Some \<lparr>Schema = \<lparr>Data = GenerateRequestOutput.Schema out\<rparr>,
                           Strict = True\<rparr>\<rparr>
           else
             Some \<lparr>ChatCompletionResponseFormat.Type =
                     goopenai_ChatCompletionResponseFormatTypeText,
                   JSONSchema = None\<rparr>)
        else None) \<and>
     (\<forall>rf js. ResponseFormat r = Some rf \<and> JSONSchema rf = Some js \<longrightarrow>
        MarshalJSON marshal (Schema js) = marshal (GenerateRequestOutput.Schema out))"
    unfolding convertRequest_def assms(1,3,4) convertRequest_format_ResponseFormat [OF assms(2)]
    by (simp add: convertRequest_config_ResponseFormat MarshalJSON_def)
next
  show "\<exists>r. convertRequest_rev marshal narrow model input = Inr r \<and>
     ResponseFormat r =
       (if model \<in> set modelsSupportingResponseFormats then
          (if Format out = ai_OutputFormatJSON then
             Some \<lparr>ChatCompletionResponseFormat.Type =
                     goopenai_ChatCompletionResponseFormatTypeJSONObject,
                   JSONSchema = None\<rparr>
           else
             Some \<lparr>ChatCompletionResponseFormat.Type =
                     goopenai_ChatCompletionResponseFormatTypeText,
                   JSONSchema = None\<rparr>)
        else None)"
    unfolding convertRequest_rev_def convertMessages_rev_eq assms(1,3,4)
      convertRequest_format_bare_ResponseFormat [OF assms(2)]
    by (simp add: convertRequest_config_ResponseFormat)
qed

theorem convertRequest_ResponseFormat_witness:
  \<open>ResponseFormat (projr (convertRequest example_marshal float32_of_float64 ''gpt-4o''
      (example_request ConfigNil (Some \<lparr>Format = ''json'', Schema = [(''x'', 1)]\<rparr>)))) =
     Some \<lparr>ChatCompletionResponseFormat.Type = ''json_object'',
           JSONSchema = Some \<lparr>Schema = \<lparr>Data = [(''x'', 1)]\<rparr>, Strict = True\<rparr>\<rparr>
   \<and> MarshalJSON example_marshal \<lparr>Data = [(''x'', 1)]\<rparr> = Some ''{"x":1}''
   \<and> ResponseFormat (projr (convertRequest_rev example_marshal float32_of_float64 ''gpt-4o''
      (example_request ConfigNil (Some \<lparr>Format = ''json'', Schema = [(''x'', 1)]\<rparr>)))) =
     Some \<lparr>ChatCompletionResponseFormat.Type = ''json_object'', JSONSchema = None\<rparr>
   \<and> ResponseFormat (projr (convertRequest example_marshal float32_of_float64 ''gpt-4''
      (example_request ConfigNil (Some \<lparr>Format = ''json'', Schema = [(''x'', 1)]\<rparr>)))) = None
   \<and> isl (convertRequest example_marshal float32_of_float64 ''gpt-4''
      (example_request ConfigNil (Some \<lparr>Format = ''json'', Schema = [(''x'', 1)]\<rparr>))) = False
   \<and> ResponseFormat (projr (convertRequest_rev example_marshal float32_of_float64 ''gpt-4''
      (example_request ConfigNil (Some \<lparr>Format = ''json'', Schema = [(''x'', 1)]\<rparr>)))) = None
   \<and> isl (convertRequest_rev example_marshal float32_of_float64 ''gpt-4''
      (example_request ConfigNil (Some \<lparr>Format = ''json'', Schema = [(''x'', 1)]\<rparr>))) = False\<close>
proof -
  let ?out = "\<lparr>Format = ''json'', Schema = [(''x'', 1::int)]\<rparr>"
  let ?input = "example_request ConfigNil (Some ?out)"
  have o: "Output ?input = Some ?out" by (simp add: example_request_def)
  have f: "Format ?out = ai_OutputFormatJSON \<or> Format ?out = ai_OutputFormatText"
    by (simp add: ai_OutputFormatJSON_def)
  have m: "convertMessages example_marshal (GenerateRequest.Messages ?input) =
      Inr [ChatCompletionMessage_zero
          \<lparr>ChatCompletionMessage.Role := ''user'',
           MultiContent :=
             [\<lparr>ChatMessagePart.Type = ''text'', ChatMessagePart.Text = ''Hello'',
               ImageURL = None\<rparr>]\<rparr>]"
    by (simp add: example_request_def convertMessages_example)
  have t: "convertTools example_marshal (GenerateRequest.Tools ?input) = Inr []"
    by (simp add: example_request_def convertTools_def)
  from convertRequest_ResponseFormat
      [OF o f m t, where narrow = float32_of_float64 and model = "''gpt-4o''"]
    convertRequest_ResponseFormat
      [OF o f m t, where narrow = float32_of_float64 and model = "''gpt-4''"]
  show ?thesis
    by (auto simp: format_consts model_consts MarshalJSON_def example_marshal_def)
qed

text \<open>
  C4, as stated, fails: for a model outside the allow-list the block on the output format
  is not entered, so the format \<open>media\<close> raises no error with \<open>gpt-4\<close>.
\<close>

theorem convertRequest_unknown_Format_counterexample:
  "''media'' \<noteq> ai_OutputFormatJSON \<and> ''media'' \<noteq> ai_OutputFormatText \<and> ''media'' \<noteq> ''''
   \<and> convertRequest example_marshal (id :: real \<Rightarrow> real) ''gpt-4''
        (example_request ConfigNil (Some \<lparr>Format = ''media'', Schema = []\<rparr>)) =
      Inr (example_vendor_request ''gpt-4'')"
  by (simp add: convertRequest_example convertRequest_format_def convertRequest_config_def
        format_consts model_consts)

text \<open>
  C4, amended. For a request whose \<^verbatim>\<open>Output.Format\<close> is neither JSON, Text nor empty
  and whose messages and tools convert: when the model is in the allow-list,
  \<^verbatim>\<open>convertRequest\<close> returns the error \<^verbatim>\<open>"unknown part type in a request"\<close>; when it
  is not, \<^verbatim>\<open>convertRequest\<close> returns a request whose \<^verbatim>\<open>ResponseFormat\<close> is nil.
\<close>

theorem convertRequest_unknown_Format:
  assumes "Output input = Some out"
    and "Format out \<noteq> ''''" and "Format out \<noteq> ai_OutputFormatJSON"
    and "Format out \<noteq> ai_OutputFormatText"
    and "convertMessages marshal (GenerateRequest.Messages input) = Inr messages"
    and "convertTools marshal (GenerateRequest.Tools input) = Inr tools"
  shows "(model \<in> set modelsSupportingResponseFormats \<longrightarrow>
           convertRequest marshal narrow model input = Inl (Err UnknownPartType))
       \<and> (model \<notin> set modelsSupportingResponseFormats \<longrightarrow>
           (\<exists>r. convertRequest marshal narrow model input = Inr r \<and> ResponseFormat r = None))"
  unfolding convertRequest_def assms(1,5,6)
  using assms(2,3,4)
  by (simp add: convertRequest_format_def convertRequest_config_ResponseFormat)

theorem convertRequest_unknown_Format_witness:
  "convertRequest example_marshal (id :: real \<Rightarrow> real) ''gpt-4-turbo''
     (example_request ConfigNil (Some \<lparr>Format = ''media'', Schema = []\<rparr>)) =
     Inl (Err UnknownPartType)
   \<and> ResponseFormat (projr (convertRequest example_marshal (id :: real \<Rightarrow> real) ''gpt-3.5-turbo''
       (example_request ConfigNil (Some \<lparr>Format = ''media'', Schema = []\<rparr>)))) = None"
proof -
  let ?out = "\<lparr>Format = ''media'', Schema = [] :: (string \<times> int) list\<rparr>"
  let ?input = "example_request ConfigNil (Some ?out)"
  have o: "Output ?input = Some ?out" by (simp add: example_request_def)
  have f: "Format ?out \<noteq> ''''" "Format ?out \<noteq> ai_OutputFormatJSON"
    "Format ?out \<noteq> ai_OutputFormatText"
    by (simp_all add: format_consts)
  have m: "convertMessages example_marshal (GenerateRequest.Messages ?input) =
      Inr [ChatCompletionMessage_zero
          \<lparr>ChatCompletionMessage.Role := ''user'',
           MultiContent :=
             [\<lparr>ChatMessagePart.Type = ''text'', ChatMessagePart.Text = ''Hello'',
               ImageURL = None\<rparr>]\<rparr>]"
    by (simp add: example_request_def convertMessages_example)
  have t: "convertTools example_marshal (GenerateRequest.Tools ?input) = Inr []"
    by (simp add: example_request_def convertTools_def)
  from convertRequest_unknown_Format [OF o f m t, where narrow = "id :: real \<Rightarrow> real" and model = "''gpt-4-turbo''"]
    convertRequest_unknown_Format [OF o f m t, where narrow = "id :: real \<Rightarrow> real" and model = "''gpt-3.5-turbo''"]
  show ?thesis
    by (auto simp: model_consts)
qed

subsection \<open>Role mapping\<close>

text \<open>
  C6. Each of the four generic roles (user, system, model, tool) is mapped to a vendor
  role by \<^verbatim>\<open>fromAIRoleToOpenAIRole\<close>, and \<^verbatim>\<open>toOpenAIRole\<close> maps that vendor role
  back to the same generic role; on every other generic role
  \<^verbatim>\<open>fromAIRoleToOpenAIRole\<close> panics with \<^verbatim>\<open>"Unknown ai.Role: ..."\<close>.
\<close>

theorem role_roundtrip:
  "(r \<in> {ai_RoleUser, ai_RoleSystem, ai_RoleModel, ai_RoleTool} \<longrightarrow>
      (\<exists>v. fromAIRoleToOpenAIRole r = Inr v \<and> toOpenAIRole v = Inr r))
   \<and> (r \<notin> {ai_RoleUser, ai_RoleSystem, ai_RoleModel, ai_RoleTool} \<longrightarrow>
      fromAIRoleToOpenAIRole r = Inl (Panic (UnknownAIRole r)))"
  by (auto simp: fromAIRoleToOpenAIRole_def toOpenAIRole_def ai_role_consts role_consts)

theorem role_roundtrip_witness:
  "fromAIRoleToOpenAIRole ''model'' = Inr ''assistant''
   \<and> toOpenAIRole ''assistant'' = Inr ''model''
   \<and> fromAIRoleToOpenAIRole ''admin'' = Inl (Panic (UnknownAIRole ''admin''))"
  using role_roundtrip [of "''model''"] role_roundtrip [of "''admin''"]
  by (simp add: fromAIRoleToOpenAIRole_def toOpenAIRole_def ai_role_consts role_consts)

subsection \<open>JSON helpers\<close>




subsection \<open>Candidates\<close>

lemma translateCandidate_toolCalls_ok:
  "\<forall>tc\<in>set tcs. unmarshal (FunctionCall.Arguments (ToolCall.Function tc)) \<noteq> None \<Longrightarrow>
   translateCandidate_toolCalls unmarshal acc tcs =
     Inr (acc @ map (\<lambda>tc. NewToolRequestPart
                   \<lparr>ToolRequest.Name = FunctionCall.Name (ToolCall.Function tc),
                    ToolRequest.Input =
                      the (unmarshal (FunctionCall.Arguments (ToolCall.Function tc)))\<rparr>) tcs)"
proof (induction tcs arbitrary: acc)
  case Nil
  show ?case by simp
next
  case (Cons tc tcs)
  from Cons.prems obtain input where
    "unmarshal (FunctionCall.Arguments (ToolCall.Function tc)) = Some input" by auto
  moreover from Cons.prems have
    "\<forall>tc\<in>set tcs. unmarshal (FunctionCall.Arguments (ToolCall.Function tc)) \<noteq> None" by simp
  ultimately show ?case by (simp add: jsonStringToMap_def Cons.IH)
qed

lemma translateCandidate_toolCalls_fail:
  "tc \<in> set tcs \<Longrightarrow> unmarshal (FunctionCall.Arguments (ToolCall.Function tc)) = None \<Longrightarrow>
   \<exists>tc'\<in>set tcs. unmarshal (FunctionCall.Arguments (ToolCall.Function tc')) = None \<and>
     translateCandidate_toolCalls unmarshal acc tcs =
       Inl (Panic (UnmarshalFailed (FunctionCall.Arguments (ToolCall.Function tc'))))"
proof (induction tcs arbitrary: acc)
  case Nil
  then show ?case by simp
next
  case (Cons x tcs)
  show ?case
  proof (cases "unmarshal (FunctionCall.Arguments (ToolCall.Function x))")
    case None
    then have "translateCandidate_toolCalls unmarshal acc (x # tcs) =
       Inl (Panic (UnmarshalFailed (FunctionCall.Arguments (ToolCall.Function x))))"
      by (simp add: jsonStringToMap_def)
    with None show ?thesis by (intro bexI [of _ x]) simp_all
  next
    case (Some a)
    with Cons.prems have "tc \<in> set tcs" by auto
    from Cons.IH [OF this Cons.prems(2)] obtain tc' where
      tc': "tc' \<in> set tcs" "unmarshal (FunctionCall.Arguments (ToolCall.Function tc')) = None"
      "translateCandidate_toolCalls unmarshal
         (acc @ [NewToolRequestPart
                 \<lparr>ToolRequest.Name = FunctionCall.Name (ToolCall.Function x),
                  ToolRequest.Input = a\<rparr>]) tcs =
       Inl (Panic (UnmarshalFailed (FunctionCall.Arguments (ToolCall.Function tc'))))"
      by blast
    from tc' Some show ?thesis by (intro bexI [of _ tc']) (simp_all add: jsonStringToMap_def)
  qed
qed

text \<open>
  C2. Whatever string the vendor sends as finish reason, \<^verbatim>\<open>translateCandidate\<close>
  returns a candidate whose finish reason is Stop for \<open>stop\<close> and \<open>tool_calls\<close>,
  Length for \<open>length\<close>, Blocked for \<open>content_filter\<close>, Other for
  \<open>function_call\<close>, and Unknown for \<open>null\<close> and every other string. The one
  way \<^verbatim>\<open>translateCandidate\<close> fails is the panic of \<^verbatim>\<open>jsonStringToMap\<close> on the
  arguments of a tool call that do not decode; the finish reason never causes a failure.
\<close>

theorem translateCandidate_FinishReason_total:
  "(\<exists>c. translateCandidate unmarshal choice jsonMode = Inr c \<and>
        Candidate.FinishReason c =
          (if ChatCompletionChoice.FinishReason choice = ''stop''
              \<or> ChatCompletionChoice.FinishReason choice = ''tool_calls'' then FinishReasonStop
           else if ChatCompletionChoice.FinishReason choice = ''length'' then FinishReasonLength
           else if ChatCompletionChoice.FinishReason choice = ''content_filter''
             then FinishReasonBlocked
           else if ChatCompletionChoice.FinishReason choice = ''function_call''
             then FinishReasonOther
           else FinishReasonUnknown))
   \<or> (\<exists>tc\<in>set (ToolCalls (ChatCompletionChoice.Message choice)).
         unmarshal (FunctionCall.Arguments (ToolCall.Function tc)) = None \<and>
         translateCandidate unmarshal choice jsonMode =
           Inl (Panic (UnmarshalFailed (FunctionCall.Arguments (ToolCall.Function tc)))))"
proof (cases "\<forall>tc\<in>set (ToolCalls (ChatCompletionChoice.Message choice)).
         unmarshal (FunctionCall.Arguments (ToolCall.Function tc)) \<noteq> None")
  case True
  show ?thesis
    unfolding translateCandidate_def Let_def finish_consts
    by (rule disjI1) (simp add: translateCandidate_toolCalls_ok [OF True])
next
  case False
  then obtain tc where tc: "tc \<in> set (ToolCalls (ChatCompletionChoice.Message choice))"
    "unmarshal (FunctionCall.Arguments (ToolCall.Function tc)) = None" by blast
  from translateCandidate_toolCalls_fail [where unmarshal = unmarshal and acc = "[]", OF tc]
  obtain tc' where
    tc': "tc' \<in> set (ToolCalls (ChatCompletionChoice.Message choice))"
      "unmarshal (FunctionCall.Arguments (ToolCall.Function tc')) = None"
      "translateCandidate_toolCalls unmarshal [] (ToolCalls (ChatCompletionChoice.Message choice)) =
       Inl (Panic (UnmarshalFailed (FunctionCall.Arguments (ToolCall.Function tc'))))"
    by blast
  have "translateCandidate unmarshal choice jsonMode =
           Inl (Panic (UnmarshalFailed (FunctionCall.Arguments (ToolCall.Function tc'))))"
    unfolding translateCandidate_def Let_def by (simp add: tc'(3))
  with tc' show ?thesis by blast
qed

theorem translateCandidate_FinishReason_total_witness:
  "Candidate.FinishReason
     (projr (translateCandidate example_unmarshal (example_choice ''length'' []) False))
     = FinishReasonLength
   \<and> Candidate.FinishReason
     (projr (translateCandidate example_unmarshal (example_choice ''null'' []) False))
     = FinishReasonUnknown
   \<and> Candidate.FinishReason
     (projr (translateCandidate example_unmarshal (example_choice ''eos'' []) True))
     = FinishReasonUnknown
   \<and> Candidate.FinishReason
     (projr (translateCandidate example_unmarshal
        (example_choice ''tool_calls'' [example_toolCall]) False))
     = FinishReasonStop"
  using
    translateCandidate_FinishReason_total
      [of example_unmarshal "example_choice ''length'' []" False]
    translateCandidate_FinishReason_total
      [of example_unmarshal "example_choice ''null'' []" False]
    translateCandidate_FinishReason_total
      [of example_unmarshal "example_choice ''eos'' []" True]
    translateCandidate_FinishReason_total
      [of example_unmarshal "example_choice ''tool_calls'' [example_toolCall]" False]
  by (auto simp: example_choice_def ChatCompletionMessage_zero_def example_toolCall_def
        example_unmarshal_def)



subsection \<open>Messages\<close>

lemma convertMessages_loop_append:
  "convertMessages_loop marshal acc (xs @ ys) =
     (case convertMessages_loop marshal acc xs of
        Inl err \<Rightarrow> Inl err
      | Inr acc' \<Rightarrow> convertMessages_loop marshal acc' ys)"
  by (induction xs arbitrary: acc) (simp_all split: sum.split list.split)

lemma convertMessages_toolCalls_none:
  "\<forall>p\<in>set ps. \<not> IsToolRequest p \<Longrightarrow> convertMessages_toolCalls marshal acc ps = Inr acc"
  by (induction ps arbitrary: acc) simp_all

lemma convertMessages_loop_system:
  "Message.Role m = ai_RoleSystem \<Longrightarrow>
   convertMessages_loop marshal acc (m # ms) =
     (case Message.Content m of
        [] \<Rightarrow> Inl (Panic IndexOutOfRange)
      | p # _ \<Rightarrow>
          convertMessages_loop marshal
            (acc @ [ChatCompletionMessage_zero
                      \<lparr>ChatCompletionMessage.Role := goopenai_ChatMessageRoleSystem,
                       ChatCompletionMessage.Content := Part.Text p\<rparr>]) ms)"
  by (simp add: fromAIRoleToOpenAIRole_def ai_role_consts role_consts split: list.split)

lemma convertMessages_loop_plain_model:
  "Message.Role m = ai_RoleModel \<Longrightarrow> \<forall>p\<in>set (Message.Content m). \<not> IsToolRequest p \<Longrightarrow>
   convertMessages_loop marshal acc (m # ms) =
     (case Message.Content m of
        [] \<Rightarrow> Inl (Panic IndexOutOfRange)
      | p # _ \<Rightarrow>
          convertMessages_loop marshal
            (acc @ [ChatCompletionMessage_zero
                      \<lparr>ChatCompletionMessage.Role := goopenai_ChatMessageRoleAssistant,
                       ChatCompletionMessage.Content := Part.Text p\<rparr>]) ms)"
  by (simp add: fromAIRoleToOpenAIRole_def ai_role_consts role_consts
        convertMessages_toolCalls_none split: list.split)

text \<open>
  C10. Let \<open>m\<close> be a System message, or a Model message none of whose parts is a
  ToolRequest, reached after messages \<open>pre\<close> that convert. If the part list of
  \<open>m\<close> is empty, \<^verbatim>\<open>convertMessages\<close> does not return an error but panics with the
  runtime's index-out-of-range, whatever follows \<open>m\<close>. If it is not empty, \<open>m\<close>
  becomes one vendor message carrying the \<^verbatim>\<open>Text\<close> field of its first part.
\<close>

theorem convertMessages_first_Part:
  assumes "convertMessages marshal pre = Inr out"
    and "Message.Role m = ai_RoleSystem \<or>
         (Message.Role m = ai_RoleModel \<and> (\<forall>p\<in>set (Message.Content m). \<not> IsToolRequest p))"
  shows "(Message.Content m = [] \<longrightarrow>
            convertMessages marshal (pre @ m # post) = Inl (Panic IndexOutOfRange))
       \<and> (\<forall>p ps. Message.Content m = p # ps \<longrightarrow>
            convertMessages marshal (pre @ [m]) =
              Inr (out @ [ChatCompletionMessage_zero
                      \<lparr>ChatCompletionMessage.Role :=
                         (if Message.Role m = ai_RoleSystem then goopenai_ChatMessageRoleSystem
                          else goopenai_ChatMessageRoleAssistant),
                       ChatCompletionMessage.Content := Part.Text p\<rparr>]))"
proof -
  have step: "convertMessages_loop marshal out (m # ms) =
     (case Message.Content m of
        [] \<Rightarrow> Inl (Panic IndexOutOfRange)
      | p # _ \<Rightarrow>
          convertMessages_loop marshal
            (out @ [ChatCompletionMessage_zero
                      \<lparr>ChatCompletionMessage.Role :=
                         (if Message.Role m = ai_RoleSystem then goopenai_ChatMessageRoleSystem
                          else goopenai_ChatMessageRoleAssistant),
                       ChatCompletionMessage.Content := Part.Text p\<rparr>]) ms)" for ms
  proof (cases "Message.Role m = ai_RoleSystem")
    case True
    show ?thesis unfolding convertMessages_loop_system [OF True]
      by (simp add: True split: list.split)
  next
    case False
    with assms(2) have mdl: "Message.Role m = ai_RoleModel"
      "\<forall>p\<in>set (Message.Content m). \<not> IsToolRequest p" by simp_all
    show ?thesis unfolding convertMessages_loop_plain_model [OF mdl]
      by (simp add: False split: list.split)
  qed
  from assms(1) show ?thesis
    by (simp add: convertMessages_def convertMessages_loop_append step
          del: convertMessages_loop.simps(2))
qed

theorem convertMessages_first_Part_witness:
  "convertMessages example_marshal
     [\<lparr>Message.Role = ''user'', Message.Content = [NewTextPart ''Hello'']\<rparr>,
      \<lparr>Message.Role = ''system'', Message.Content = []\<rparr>,
      \<lparr>Message.Role = ''user'', Message.Content = [NewTextPart ''Bye'']\<rparr>] =
     Inl (Panic IndexOutOfRange)
   \<and> convertMessages example_marshal [\<lparr>Message.Role = ''model'', Message.Content = []\<rparr>] =
     Inl (Panic IndexOutOfRange)
   \<and> convertMessages example_marshal
     [\<lparr>Message.Role = ''system'',
       Message.Content = [NewTextPart ''You are helpful.'', NewTextPart ''Be brief.'']\<rparr>] =
     Inr [ChatCompletionMessage_zero
            \<lparr>ChatCompletionMessage.Role := ''system'',
             ChatCompletionMessage.Content := ''You are helpful.''\<rparr>]"
proof -
  have e: "convertMessages example_marshal [] = Inr []"
    by (simp add: convertMessages_def)
  have s: "Message.Role \<lparr>Message.Role = ''system'', Message.Content = c\<rparr> = ai_RoleSystem \<or>
         (Message.Role \<lparr>Message.Role = ''system'', Message.Content = c\<rparr> = ai_RoleModel \<and>
          (\<forall>p\<in>set (Message.Content \<lparr>Message.Role = ''system'', Message.Content = c\<rparr>).
              \<not> IsToolRequest p))" for c :: "(string \<times> int) list Part list"
    by (simp add: ai_RoleSystem_def)
  have m: "Message.Role \<lparr>Message.Role = ''model'', Message.Content = []\<rparr> = ai_RoleSystem \<or>
         (Message.Role \<lparr>Message.Role = ''model'', Message.Content = []\<rparr> = ai_RoleModel \<and>
          (\<forall>p\<in>set (Message.Content \<lparr>Message.Role = ''model'',
                 Message.Content = [] :: (string \<times> int) list Part list\<rparr>).
              \<not> IsToolRequest p))"
    by (simp add: ai_RoleModel_def)
  from convertMessages_first_Part [OF convertMessages_example s,
      where post = "[\<lparr>Message.Role = ''user'', Message.Content = [NewTextPart ''Bye'']\<rparr>]"
        and c1 = "[]"]
    convertMessages_first_Part [OF e m, where post = "[]"]
    convertMessages_first_Part [OF e s,
      where c1 = "[NewTextPart ''You are helpful.'', NewTextPart ''Be brief.'']"]
  show ?thesis
    by (simp add: NewTextPart_def ai_role_consts role_consts)
qed

subsection \<open>The generation entry point\<close>

text \<open>
  C9. Whatever the chunk callback is, \<^verbatim>\<open>generate\<close> leaves the caller's world as it
  found it, and returns what it returns with any other callback: no execution calls the
  callback, so no chunk is ever delivered through it.
\<close>

theorem generate_ignores_callback:
  "snd (generate create marshal unmarshal narrow cl model input cb w) = w \<and>
   fst (generate create marshal unmarshal narrow cl model input cb w) =
   fst (generate create marshal unmarshal narrow cl model input cb' w)"
  unfolding generate_def Let_def by (simp split: sum.split)

text \<open>
  The sample flow's request, with a callback that counts its calls: the count stays 0
  and the response is the one a nil callback gives.
\<close>

theorem generate_ignores_callback_witness:
  "snd (generate example_create example_marshal example_unmarshal id (NewClient ''sk-test'')
          ''gpt-4o-mini'' (example_request (ConfigCommon (Some example_config)) None)
          (Some example_cb) (0::nat)) = 0
   \<and> fst (generate example_create example_marshal example_unmarshal id (NewClient ''sk-test'')
          ''gpt-4o-mini'' (example_request (ConfigCommon (Some example_config)) None)
          (Some example_cb) (0::nat)) =
     fst (generate example_create example_marshal example_unmarshal id (NewClient ''sk-test'')
          ''gpt-4o-mini'' (example_request (ConfigCommon (Some example_config)) None)
          None (0::nat))"
  using generate_ignores_callback
    [of example_create example_marshal example_unmarshal id "NewClient ''sk-test''"
        "''gpt-4o-mini''" "example_request (ConfigCommon (Some example_config)) None"
        "Some example_cb" "0::nat" None]
  by simp

text \<open>What \<^verbatim>\<open>generate\<close> returns on that request: one candidate, the usage copied.\<close>

lemma generate_example:
  "fst (generate example_create example_marshal example_unmarshal (id :: real \<Rightarrow> real)
          (NewClient ''sk-test'') ''gpt-4o-mini''
          (example_request (ConfigCommon (Some example_config)) None) (Some example_cb) (0::nat)) =
   Inr \<lparr>GenerateResponse.Candidates =
          [\<lparr>Candidate.Index = 0, Candidate.FinishReason = FinishReasonStop,
            Candidate.Message =
              \<lparr>Message.Role = ''model'', Message.Content = [NewTextPart ''France'']\<rparr>\<rparr>],
        GenerateResponse.Usage =
          Some \<lparr>InputTokens = 21, OutputTokens = 1, GenerationUsage.TotalTokens = 22\<rparr>,
        Custom = Some \<lparr>Choices = [example_choice ''stop'' []],
          ChatCompletionResponse.Usage =
            \<lparr>PromptTokens = 21, CompletionTokens = 1, Usage.TotalTokens = 22\<rparr>\<rparr>,
        Request = Some (example_request (ConfigCommon (Some example_config)) None)\<rparr>"
proof -
  have c: "convertRequest example_marshal (id :: real \<Rightarrow> real) ''gpt-4o-mini''
      (example_request (ConfigCommon (Some example_config)) None) =
      Inr ((example_vendor_request ''gpt-4o-mini'')\<lparr>ChatCompletionRequest.Temperature := 1\<rparr>)"
    by (simp add: convertRequest_example convertRequest_format_def convertRequest_config_def
          example_config_def)
  have o: "Output (example_request (ConfigCommon (Some example_config)) None) = None"
    by (simp add: example_request_def)
  have t: "translateResponse example_unmarshal
      \<lparr>Choices = [example_choice ''stop'' []],
       ChatCompletionResponse.Usage =
         \<lparr>PromptTokens = 21, CompletionTokens = 1, Usage.TotalTokens = 22\<rparr>\<rparr> False =
      Inr \<lparr>GenerateResponse.Candidates =
          [\<lparr>Candidate.Index = 0, Candidate.FinishReason = FinishReasonStop,
            Candidate.Message =
              \<lparr>Message.Role = ''model'', Message.Content = [NewTextPart ''France'']\<rparr>\<rparr>],
        GenerateResponse.Usage =
          Some \<lparr>InputTokens = 21, OutputTokens = 1, GenerationUsage.TotalTokens = 22\<rparr>,
        Custom = Some \<lparr>Choices = [example_choice ''stop'' []],
          ChatCompletionResponse.Usage =
            \<lparr>PromptTokens = 21, CompletionTokens = 1, Usage.TotalTokens = 22\<rparr>\<rparr>,
        Request = None\<rparr>"
    by (simp add: translateResponse_def translateCandidate_def example_choice_def
          ChatCompletionMessage_zero_def finish_consts ai_RoleModel_def)
  show ?thesis
    by (simp add: generate_def c o example_create_def t)
qed

subsection \<open>The registry\<close>

lemma defineModel_initted:
  "defineModel reg name caps s = (r, s') \<Longrightarrow> initted s' = initted s"
  by (auto simp: defineModel_def Let_def split: prod.splits)

lemma Init_loop_initted:
  "Init_loop reg ks s = (r, s') \<Longrightarrow> initted s' = initted s"
proof (induction ks arbitrary: s)
  case Nil
  then show ?case by simp
next
  case (Cons k ks)
  show ?case
  proof (cases "map_of knownCaps k")
    case None
    with Cons show ?thesis by simp
  next
    case (Some caps)
    obtain r1 s1 where d: "defineModel reg k caps s = (r1, s1)"
      by (cases "defineModel reg k caps s")
    from defineModel_initted [OF d] have i: "initted s1 = initted s" .
    show ?thesis
    proof (cases r1)
      case (Inl e)
      with Cons.prems Some d i show ?thesis by simp
    next
      case (Inr mdl)
      with Cons.prems Some d have "Init_loop reg ks s1 = (r, s')" by simp
      from Cons.IH [OF this] i show ?thesis by simp
    qed
  qed
qed

lemma Init_success_initted:
  assumes "Init reg ks env cfg s0 = (None, s)"
  shows "initted s"
proof -
  from assms have ni: "\<not> initted s0"
    by (auto simp: Init_def Let_def split: if_splits)
  with assms obtain apiKey where
    "Init_loop reg ks (s0\<lparr>client := Some (NewClient apiKey), initted := True\<rparr>) = (None, s)"
    by (auto simp: Init_def Let_def split: if_splits)
  from Init_loop_initted [OF this] show ?thesis by simp
qed

lemma map_of_knownCaps:
  "map_of knownCaps name =
     (if name = ''gpt-4o'' \<or> name = ''gpt-4o-mini'' \<or> name = ''gpt-4-turbo'' then Some Multimodal
      else if name = ''gpt-4'' then Some BasicText
      else None)"
  by (simp add: knownCaps_def goopenai_GPT4o_def goopenai_GPT4oMini_def goopenai_GPT4Turbo_def
        goopenai_GPT4_def)

lemma Init_example:
  "Init ai_DefineModel [''gpt-4o'', ''gpt-4o-mini'', ''gpt-4-turbo'', ''gpt-4''] ''''
     (Some \<lparr>APIKey = ''sk-test''\<rparr>) \<lparr>initted = False, client = None, host = []\<rparr> =
   (None, example_state)"
  by (simp add: Init_def map_of_knownCaps defineModel_def ai_DefineModel_def provider_def
        labelPrefix_def example_state_def)

lemma knownCaps_keys:
  "fst ` set knownCaps = {''gpt-4o'', ''gpt-4o-mini'', ''gpt-4-turbo'', ''gpt-4''}"
  by (auto simp: knownCaps_def goopenai_GPT4o_def goopenai_GPT4oMini_def goopenai_GPT4Turbo_def
        goopenai_GPT4_def)

lemma after_Init_example: "after_Init ai_DefineModel example_state"
proof (rule after_Init_Init [OF _ _ Init_example])
  show "distinct [''gpt-4o'', ''gpt-4o-mini'', ''gpt-4-turbo'', ''gpt-4'']" by simp
  show "set [''gpt-4o'', ''gpt-4o-mini'', ''gpt-4-turbo'', ''gpt-4''] = fst ` set knownCaps"
    unfolding knownCaps_keys by auto
qed

lemma DefineModel_initted:
  "DefineModel reg name caps s = (r, s') \<Longrightarrow> initted s' = initted s"
  by (auto simp: DefineModel_def split: if_splits option.splits dest: defineModel_initted)

lemma after_Init_initted:
  "after_Init reg s \<Longrightarrow> initted s"
  by (induction rule: after_Init.induct)
     (simp_all add: Init_success_initted DefineModel_initted)


text \<open>
  What \<^verbatim>\<open>DefineModel\<close> is in a state after \<^verbatim>\<open>Init\<close>, for any host: the error for
  an unknown name without capabilities, and otherwise the host registration with the
  table's or the supplied capabilities.
\<close>

lemma DefineModel_host:
  assumes "after_Init reg s"
  shows "(map_of knownCaps name = None \<longrightarrow>
            DefineModel reg name None s = (Inl (Err (DefineModelUnknown name)), s))
       \<and> (\<forall>mc. map_of knownCaps name = Some mc \<longrightarrow>
            DefineModel reg name None s =
              (case reg provider name \<lparr>Label = ''OpenAI - '' @ name, Supports = mc\<rparr> (host s) of
                 (r, h') \<Rightarrow> (r, s\<lparr>host := h'\<rparr>)))
       \<and> (\<forall>mc. DefineModel reg name (Some mc) s =
              (case reg provider name \<lparr>Label = ''OpenAI - '' @ name, Supports = mc\<rparr> (host s) of
                 (r, h') \<Rightarrow> (r, s\<lparr>host := h'\<rparr>)))"
  using after_Init_initted [OF assms]
  by (simp add: DefineModel_def defineModel_def labelPrefix_def Let_def)

text \<open>The host's registry only grows, and \<^verbatim>\<open>Init\<close> fills it with the table's names.\<close>

lemma defineModel_ai_DefineModel:
  "defineModel ai_DefineModel name caps s =
     (if (provider, name) \<in> fst ` set (host s)
      then (Inl (Panic (HostPanic (provider @ ''/'' @ name))), s)
      else (Inr (provider, name),
            s\<lparr>host := host s @
                 [((provider, name), \<lparr>Label = ''OpenAI - '' @ name, Supports = caps\<rparr>)]\<rparr>))"
  by (simp add: defineModel_def ai_DefineModel_def labelPrefix_def Let_def)

lemma defineModel_ai_DefineModel_host:
  assumes "defineModel ai_DefineModel name caps s = (r, s')"
  shows "fst ` set (host s) \<subseteq> fst ` set (host s')"
    and "r \<noteq> Inl e \<Longrightarrow> (provider, name) \<in> fst ` set (host s')"
  using assms by (auto simp: defineModel_ai_DefineModel split: if_splits)

lemma DefineModel_ai_DefineModel_host:
  assumes "DefineModel ai_DefineModel name caps s = (r, s')"
  shows "fst ` set (host s) \<subseteq> fst ` set (host s')"
  using assms
  by (auto simp: DefineModel_def defineModel_ai_DefineModel split: if_splits option.splits)

lemma Init_loop_ai_DefineModel_host:
  assumes "Init_loop ai_DefineModel ks s = (None, s')"
  shows "fst ` set (host s) \<subseteq> fst ` set (host s') \<and>
         (\<forall>k\<in>set ks. map_of knownCaps k \<noteq> None \<longrightarrow> (provider, k) \<in> fst ` set (host s'))"
  using assms
proof (induction ks arbitrary: s)
  case Nil
  then show ?case by simp
next
  case (Cons k ks)
  show ?case
  proof (cases "map_of knownCaps k")
    case None
    with Cons.prems have "Init_loop ai_DefineModel ks s = (None, s')" by simp
    from Cons.IH [OF this] None show ?thesis by simp
  next
    case (Some caps)
    obtain r1 s1 where d: "defineModel ai_DefineModel k caps s = (r1, s1)"
      by (cases "defineModel ai_DefineModel k caps s")
    show ?thesis
    proof (cases r1)
      case (Inl e)
      with Cons.prems Some d show ?thesis by simp
    next
      case (Inr mdl)
      with Cons.prems Some d have l: "Init_loop ai_DefineModel ks s1 = (None, s')" by simp
      from d Inr have k1: "(provider, k) \<in> fst ` set (host s1)"
        by (auto simp: defineModel_ai_DefineModel split: if_splits)
      from defineModel_ai_DefineModel_host(1) [OF d]
      have g: "fst ` set (host s) \<subseteq> fst ` set (host s1)" .
      from Cons.IH [OF l] k1 g show ?thesis by auto
    qed
  qed
qed

lemma after_Init_ai_DefineModel_host:
  assumes "after_Init ai_DefineModel s"
  shows "map_of knownCaps name \<noteq> None \<Longrightarrow> (provider, name) \<in> fst ` set (host s)"
  using assms
proof (induction arbitrary: name rule: after_Init.induct)
  case (after_Init_Init ks env cfg s0 s)
  from after_Init_Init.hyps(3) obtain s1 where
    "Init_loop ai_DefineModel ks s1 = (None, s)"
    by (auto simp: Init_def Let_def split: if_splits)
  from Init_loop_ai_DefineModel_host [OF this]
  have r: "\<forall>k\<in>set ks. map_of knownCaps k \<noteq> None \<longrightarrow> (provider, k) \<in> fst ` set (host s)"
    by simp
  from after_Init_Init.prems have "name \<in> fst ` set knownCaps"
    by (auto simp: map_of_eq_None_iff)
  with after_Init_Init.hyps(2) have "name \<in> set ks" by simp
  with r after_Init_Init.prems show ?case by blast
next
  case (after_Init_DefineModel s name' caps r s')
  from DefineModel_ai_DefineModel_host [OF after_Init_DefineModel.hyps(2)]
    after_Init_DefineModel.IH [OF after_Init_DefineModel.prems]
  show ?case by blast
qed

text \<open>
  C8, as stated, fails with genkit's registry, which panics on a name it already holds:
  \<^verbatim>\<open>Init\<close> has registered every name of the table, so after it
  \<^verbatim>\<open>DefineModel\<close> without capabilities panics on the table's name \<open>gpt-4\<close> instead
  of succeeding, and \<^verbatim>\<open>DefineModel\<close> with capabilities panics on \<open>gpt-4o\<close>, so it
  does not succeed for every name.
\<close>

theorem DefineModel_after_Init_counterexample:
  "Init ai_DefineModel [''gpt-4o'', ''gpt-4o-mini'', ''gpt-4-turbo'', ''gpt-4''] ''''
     (Some \<lparr>APIKey = ''sk-test''\<rparr>) \<lparr>initted = False, client = None, host = []\<rparr> =
     (None, example_state)
   \<and> map_of knownCaps ''gpt-4'' = Some BasicText
   \<and> DefineModel ai_DefineModel ''gpt-4'' None example_state =
     (Inl (Panic (HostPanic ''openai/gpt-4'')), example_state)
   \<and> DefineModel ai_DefineModel ''gpt-4o'' (Some BasicText) example_state =
     (Inl (Panic (HostPanic ''openai/gpt-4o'')), example_state)"
proof -
  have "DefineModel ai_DefineModel ''gpt-4'' None example_state =
     (Inl (Panic (HostPanic ''openai/gpt-4'')), example_state)"
    by (simp add: DefineModel_def map_of_knownCaps defineModel_ai_DefineModel provider_def
          example_state_def)
  moreover have "DefineModel ai_DefineModel ''gpt-4o'' (Some BasicText) example_state =
     (Inl (Panic (HostPanic ''openai/gpt-4o'')), example_state)"
    by (simp add: DefineModel_def defineModel_ai_DefineModel provider_def example_state_def)
  ultimately show ?thesis
    by (simp add: Init_example map_of_knownCaps)
qed

text \<open>
  C8, amended. In every state after a successful \<^verbatim>\<open>Init\<close>, with genkit's registry as
  host: \<^verbatim>\<open>DefineModel\<close> without capabilities returns the error
  \<^verbatim>\<open>"... called with unknown model ... and nil ModelCapabilities"\<close> on a name outside
  the table \<^verbatim>\<open>knownCaps\<close>, and leaves the state, the registry included, unchanged; on
  a name of the table it passes the table's capabilities to the host, which panics
  because \<^verbatim>\<open>Init\<close> has registered that name, so without capabilities the call never
  succeeds. With capabilities supplied the call succeeds exactly for the names the
  registry does not hold yet, registering the name with the label and the supplied
  capabilities and returning the model handle; on a name the registry holds it panics
  and leaves the state unchanged.
\<close>

theorem DefineModel_after_Init:
  assumes "after_Init ai_DefineModel s"
  shows "(map_of knownCaps name = None \<longrightarrow>
            DefineModel ai_DefineModel name None s = (Inl (Err (DefineModelUnknown name)), s))
       \<and> (map_of knownCaps name \<noteq> None \<longrightarrow>
            DefineModel ai_DefineModel name None s =
              (Inl (Panic (HostPanic (provider @ ''/'' @ name))), s))
       \<and> (\<forall>mc. DefineModel ai_DefineModel name (Some mc) s =
            (if (provider, name) \<in> fst ` set (host s)
             then (Inl (Panic (HostPanic (provider @ ''/'' @ name))), s)
             else (Inr (provider, name),
                   s\<lparr>host := host s @
                        [((provider, name),
                          \<lparr>Label = ''OpenAI - '' @ name, Supports = mc\<rparr>)]\<rparr>)))"
proof -
  note i = after_Init_initted [OF assms]
  have 1: "map_of knownCaps name = None \<longrightarrow>
            DefineModel ai_DefineModel name None s = (Inl (Err (DefineModelUnknown name)), s)"
    using i by (simp add: DefineModel_def)
  have 2: "map_of knownCaps name \<noteq> None \<longrightarrow>
            DefineModel ai_DefineModel name None s =
              (Inl (Panic (HostPanic (provider @ ''/'' @ name))), s)"
  proof
    assume k: "map_of knownCaps name \<noteq> None"
    then obtain mc where mc: "map_of knownCaps name = Some mc" by auto
    from after_Init_ai_DefineModel_host [OF assms k]
    have "(provider, name) \<in> fst ` set (host s)" .
    with i mc show "DefineModel ai_DefineModel name None s =
              (Inl (Panic (HostPanic (provider @ ''/'' @ name))), s)"
      by (simp add: DefineModel_def defineModel_ai_DefineModel)
  qed
  have 3: "\<forall>mc. DefineModel ai_DefineModel name (Some mc) s =
            (if (provider, name) \<in> fst ` set (host s)
             then (Inl (Panic (HostPanic (provider @ ''/'' @ name))), s)
             else (Inr (provider, name),
                   s\<lparr>host := host s @
                        [((provider, name),
                          \<lparr>Label = ''OpenAI - '' @ name, Supports = mc\<rparr>)]\<rparr>))"
    using i by (simp add: DefineModel_def defineModel_ai_DefineModel)
  from 1 2 3 show ?thesis by blast
qed

theorem DefineModel_after_Init_witness:
  "after_Init ai_DefineModel example_state
   \<and> DefineModel ai_DefineModel ''gpt-3.5-turbo'' None example_state =
     (Inl (Err (DefineModelUnknown ''gpt-3.5-turbo'')), example_state)
   \<and> DefineModel ai_DefineModel ''gpt-4'' None example_state =
     (Inl (Panic (HostPanic ''openai/gpt-4'')), example_state)
   \<and> DefineModel ai_DefineModel ''gpt-3.5-turbo'' (Some BasicText) example_state =
     (Inr (''openai'', ''gpt-3.5-turbo''),
      example_state\<lparr>host := host example_state @
        [((''openai'', ''gpt-3.5-turbo''),
          \<lparr>Label = ''OpenAI - gpt-3.5-turbo'', Supports = BasicText\<rparr>)]\<rparr>)"
  using DefineModel_after_Init [OF after_Init_example, of "''gpt-3.5-turbo''"]
    DefineModel_after_Init [OF after_Init_example, of "''gpt-4''"] after_Init_example
  by (simp add: map_of_knownCaps provider_def example_state_def)

end
